theory Spec2Isabelle
  imports Complex_Main "HOL-Library.AList" "HOL-Library.Sublist"
    "HOL-Library.List_Lexorder" "HOL-Library.Char_ord"
begin

section \<open>Admission control: the fixed-window rate limiter (lib/rateLimit.ts)\<close>

text \<open>
  Timestamps are the integers \<open>Date.now()\<close> returns (milliseconds). Every function that
  reads the clock takes the reading as its first argument \<open>now\<close>. The module-level
  \<open>rateLimitStore\<close> (a \<open>Map\<close> from string keys to records) is passed in and returned.
\<close>

record RateLimitRecord =
  count :: int
  resetTime :: int

record RateLimitConfig =
  windowMs :: int
  maxRequests :: int
  keyPrefix :: "string option"

record RateLimitResult =
  allowed :: bool
  remaining :: int
  resultResetTime :: int
  retryAfter :: "int option"

type_synonym rateLimitStore = "string \<rightharpoonup> RateLimitRecord"

text \<open>The store key \<open>`${keyPrefix}:${identifier}`\<close>, with \<open>keyPrefix = ''\<close> by default.\<close>

definition rateLimitKey :: "RateLimitConfig \<Rightarrow> string \<Rightarrow> string" where
  "rateLimitKey config identifier =
     (case keyPrefix config of None \<Rightarrow> [] | Some p \<Rightarrow> p) @ '':'' @ identifier"

text \<open>The first branch of \<open>checkRateLimit\<close>: a new record replaces whatever was stored.\<close>

definition freshWindow ::
  "int \<Rightarrow> string \<Rightarrow> RateLimitConfig \<Rightarrow> rateLimitStore \<Rightarrow> RateLimitResult \<times> rateLimitStore" where
  "freshWindow now key config store =
     (let record = \<lparr>count = 1, resetTime = now + windowMs config\<rparr>
      in (\<lparr>allowed = True, remaining = maxRequests config - 1,
           resultResetTime = resetTime record, retryAfter = None\<rparr>,
          store(key \<mapsto> record)))"

definition checkRateLimit ::
  "int \<Rightarrow> string \<Rightarrow> RateLimitConfig \<Rightarrow> rateLimitStore \<Rightarrow> RateLimitResult \<times> rateLimitStore" where
  "checkRateLimit now identifier config store =
     (let key = rateLimitKey config identifier in
      case store key of
        None \<Rightarrow> freshWindow now key config store
      | Some record \<Rightarrow>
          if resetTime record < now then freshWindow now key config store
          else if count record \<ge> maxRequests config then
            (\<lparr>allowed = False, remaining = 0, resultResetTime = resetTime record,
              retryAfter = Some \<lceil>real_of_int (resetTime record - now) / 1000\<rceil>\<rparr>,
             store)
          else
            (\<lparr>allowed = True, remaining = maxRequests config - (count record + 1),
              resultResetTime = resetTime record, retryAfter = None\<rparr>,
             store(key \<mapsto> record\<lparr>count := count record + 1\<rparr>)))"

text \<open>
  A run of calls for one identity and policy, one clock reading per call: the results in
  order, and the store the last call leaves.
\<close>

fun checkRateLimitCalls ::
  "int list \<Rightarrow> string \<Rightarrow> RateLimitConfig \<Rightarrow> rateLimitStore \<Rightarrow> RateLimitResult list \<times> rateLimitStore" where
  "checkRateLimitCalls [] identifier config store = ([], store)"
| "checkRateLimitCalls (now # later) identifier config store =
     (let (r, store') = checkRateLimit now identifier config store;
          (rs, store'') = checkRateLimitCalls later identifier config store'
      in (r # rs, store''))"

definition RATE_LIMIT_CONFIGS_interpret :: RateLimitConfig where
  "RATE_LIMIT_CONFIGS_interpret =
     \<lparr>windowMs = 60 * 1000, maxRequests = 10, keyPrefix = Some ''interpret''\<rparr>"

text \<open>The test \<open>!record || record.resetTime < now\<close>: no record, or its window has elapsed.\<close>

definition windowElapsed :: "int \<Rightarrow> RateLimitRecord option \<Rightarrow> bool" where
  "windowElapsed now r = (case r of None \<Rightarrow> True | Some record \<Rightarrow> resetTime record < now)"

text \<open>The invariant \<open>count \<le> maxRequests\<close> of a stored record (an absent record has it).\<close>

definition countWithin :: "RateLimitConfig \<Rightarrow> RateLimitRecord option \<Rightarrow> bool" where
  "countWithin config r = (case r of None \<Rightarrow> True | Some record \<Rightarrow> count record \<le> maxRequests config)"

text \<open>A small policy for concrete runs: two requests per second.\<close>

definition demoPolicy :: RateLimitConfig where
  "demoPolicy = \<lparr>windowMs = 1000, maxRequests = 2, keyPrefix = Some ''interpret''\<rparr>"

section \<open>The LRU cache with per-entry expiry (lib/cache.ts)\<close>

text \<open>
  A JavaScript \<open>Map\<close> keeps its keys in insertion order, and the cache uses that order as
  the recency order. The map is an association list, oldest entry first:
  \<open>Map.get\<close> is \<open>map_of\<close>, \<open>Map.delete\<close> is \<open>AList.delete\<close>, and \<open>Map.set\<close> is
  \<open>AList.update\<close> (in place for a key that is present, at the end for a new one).
\<close>

record 'v CacheEntry =
  entryValue :: 'v
  expiresAt :: int

record 'v LRUCache =
  cache :: "(string \<times> 'v CacheEntry) list"
  maxSize :: int
  defaultTTL :: int

definition newLRUCache :: "int \<Rightarrow> int \<Rightarrow> 'v LRUCache" where
  "newLRUCache n ttl = \<lparr>cache = [], maxSize = n, defaultTTL = ttl\<rparr>"

definition lru_get :: "int \<Rightarrow> string \<Rightarrow> 'v LRUCache \<Rightarrow> 'v option \<times> 'v LRUCache" where
  "lru_get now key c =
     (case map_of (cache c) key of
        None \<Rightarrow> (None, c)
      | Some entry \<Rightarrow>
          if now > expiresAt entry then (None, c\<lparr>cache := AList.delete key (cache c)\<rparr>)
          else (Some (entryValue entry),
                c\<lparr>cache := AList.update key entry (AList.delete key (cache c))\<rparr>))"

text \<open>\<open>ttl || this.defaultTTL\<close>: the default stands in for a missing or zero \<open>ttl\<close>.\<close>

definition ttlOrDefault :: "int option \<Rightarrow> 'v LRUCache \<Rightarrow> int" where
  "ttlOrDefault ttl c =
     (case ttl of None \<Rightarrow> defaultTTL c | Some t \<Rightarrow> if t \<noteq> 0 then t else defaultTTL c)"

text \<open>
  \<open>set\<close>: the guard \<open>if (firstKey)\<close> is a truthiness test, so the oldest key is deleted
  only when it is not the empty string.
\<close>

definition lru_set :: "int \<Rightarrow> string \<Rightarrow> 'v \<Rightarrow> int option \<Rightarrow> 'v LRUCache \<Rightarrow> 'v LRUCache" where
  "lru_set now key v ttl c =
     (let m1 = (if map_of (cache c) key \<noteq> None then AList.delete key (cache c) else cache c);
          m2 = (if int (length m1) \<ge> maxSize c then
                  (case m1 of
                     [] \<Rightarrow> m1
                   | (firstKey, _) # _ \<Rightarrow> if firstKey \<noteq> [] then AList.delete firstKey m1 else m1)
                else m1);
          expires = now + ttlOrDefault ttl c
      in c\<lparr>cache := AList.update key \<lparr>entryValue = v, expiresAt = expires\<rparr> m2\<rparr>)"

definition lru_has :: "int \<Rightarrow> string \<Rightarrow> 'v LRUCache \<Rightarrow> bool \<times> 'v LRUCache" where
  "lru_has now key c =
     (case map_of (cache c) key of
        None \<Rightarrow> (False, c)
      | Some entry \<Rightarrow>
          if now > expiresAt entry then (False, c\<lparr>cache := AList.delete key (cache c)\<rparr>)
          else (True, c))"

definition lru_delete :: "string \<Rightarrow> 'v LRUCache \<Rightarrow> bool \<times> 'v LRUCache" where
  "lru_delete key c = (map_of (cache c) key \<noteq> None, c\<lparr>cache := AList.delete key (cache c)\<rparr>)"

definition lru_clear :: "'v LRUCache \<Rightarrow> 'v LRUCache" where
  "lru_clear c = c\<lparr>cache := []\<rparr>"

definition lru_size :: "'v LRUCache \<Rightarrow> nat" where
  "lru_size c = length (cache c)"

text \<open>The sweep: every entry with \<open>now > expiresAt\<close> is deleted; the number removed is returned.\<close>

definition lru_cleanup :: "int \<Rightarrow> 'v LRUCache \<Rightarrow> nat \<times> 'v LRUCache" where
  "lru_cleanup now c =
     (length (filter (\<lambda>(k, e). now > expiresAt e) (cache c)),
      c\<lparr>cache := filter (\<lambda>(k, e). \<not> now > expiresAt e) (cache c)\<rparr>)"

text \<open>The keys in recency order, least recently used first.\<close>

definition lru_keys :: "'v LRUCache \<Rightarrow> string list" where
  "lru_keys c = map fst (cache c)"

text \<open>A cache for concrete runs: capacity 3, one entry \<open>k\<close> stored at time 0 with a TTL of 100.\<close>

definition demoCache :: "string LRUCache" where
  "demoCache = lru_set 0 ''k'' ''v'' (Some 100) (newLRUCache 3 1000)"

section \<open>The cache key builder (lib/cache.ts, generateCacheKey)\<close>

text \<open>
  The arguments of \<open>generateCacheKey\<close> are of type \<open>any\<close>. The model covers plain data:
  \<open>undefined\<close>, \<open>null\<close>, booleans, integer-valued numbers, strings, arrays and objects
  whose properties are own data properties. An object is the list of its properties in
  insertion order (the order \<open>Object.keys\<close> reports). Strings are byte strings (UTF-8).
\<close>

datatype json =
    JUndefined
  | JNull
  | JBool bool
  | JNum int
  | JStr string
  | JArr "json list"
  | JObj "(string \<times> json) list"

subsection \<open>Numbers and strings as text\<close>

definition digitChar :: "nat \<Rightarrow> char" where
  "digitChar d = ''0123456789'' ! d"

fun showNat :: "nat \<Rightarrow> string" where
  "showNat n = (if n < 10 then [digitChar n] else showNat (n div 10) @ [digitChar (n mod 10)])"

declare showNat.simps [simp del]

definition showInt :: "int \<Rightarrow> string" where
  "showInt i = (if i < 0 then CHR ''-'' # showNat (nat (- i)) else showNat (nat i))"

text \<open>\<open>Array.prototype.join\<close> on strings.\<close>

fun joinWith :: "string \<Rightarrow> string list \<Rightarrow> string" where
  "joinWith sep [] = []"
| "joinWith sep [x] = x"
| "joinWith sep (x # y # ys) = x @ sep @ joinWith sep (y # ys)"

text \<open>\<open>String(arg)\<close> for a primitive.\<close>

fun toStringPrimitive :: "json \<Rightarrow> string" where
  "toStringPrimitive JUndefined = ''undefined''"
| "toStringPrimitive JNull = ''null''"
| "toStringPrimitive (JBool b) = (if b then ''true'' else ''false'')"
| "toStringPrimitive (JNum n) = showInt n"
| "toStringPrimitive (JStr s) = s"
| "toStringPrimitive _ = ''[object Object]''"

text \<open>
  \<open>QuoteJSONString\<close>: the double quote and the backslash are escaped, the control
  characters below U+0020 are written as \<open>\b \t \n \f \r\<close> or \<open>\u00XX\<close>.
\<close>

definition hexDigit :: "nat \<Rightarrow> char" where
  "hexDigit d = ''0123456789abcdef'' ! d"

definition escapeChar :: "char \<Rightarrow> string" where
  "escapeChar c =
     (let n = (of_char c :: nat) in
      if n = 34 then [char_of (92::nat), char_of (34::nat)]
      else if n = 92 then [char_of (92::nat), char_of (92::nat)]
      else if n = 8 then char_of (92::nat) # ''b''
      else if n = 9 then char_of (92::nat) # ''t''
      else if n = 10 then char_of (92::nat) # ''n''
      else if n = 12 then char_of (92::nat) # ''f''
      else if n = 13 then char_of (92::nat) # ''r''
      else if n < 32 then char_of (92::nat) # ''u00'' @ [hexDigit (n div 16), hexDigit (n mod 16)]
      else [c])"

definition quoteJSONString :: "string \<Rightarrow> string" where
  "quoteJSONString s = char_of (34::nat) # concat (map escapeChar s) @ [char_of (34::nat)]"

subsection \<open>JSON.stringify with an array replacer\<close>

text \<open>
  With an array as second argument, \<open>JSON.stringify\<close> serialises, of every object at every
  depth, exactly the properties named in the array, in the array's order. A property
  whose value is \<open>undefined\<close> is left out; an \<open>undefined\<close> array element is written
  \<open>null\<close>. \<open>serializeProperty K v\<close> is \<open>SerializeJSONProperty\<close> with property list \<open>K\<close>;
  \<open>None\<close> is its result \<open>undefined\<close>.
\<close>

fun serializeProperty :: "string list \<Rightarrow> json \<Rightarrow> string option" where
  "serializeProperty K JUndefined = None"
| "serializeProperty K JNull = Some ''null''"
| "serializeProperty K (JBool b) = Some (if b then ''true'' else ''false'')"
| "serializeProperty K (JNum n) = Some (showInt n)"
| "serializeProperty K (JStr s) = Some (quoteJSONString s)"
| "serializeProperty K (JArr xs) =
     Some (''['' @ joinWith '','' (map (\<lambda>x. case serializeProperty K x of
                                              None \<Rightarrow> ''null'' | Some t \<Rightarrow> t) xs) @ '']'')"
| "serializeProperty K (JObj ps) =
     Some (''{'' @ joinWith '',''
        (List.map_filter
           (\<lambda>k. case map_of (map (\<lambda>p. (fst p, serializeProperty K (snd p))) ps) k of
                  Some (Some t) \<Rightarrow> Some (quoteJSONString k @ '':'' @ t)
                | _ \<Rightarrow> None) K) @ ''}'')"

text \<open>
  The property list of an array replacer: its strings in order, each once (the first
  occurrence stays).
\<close>

definition propertyList :: "string list \<Rightarrow> string list" where
  "propertyList ks = rev (remdups (rev ks))"

definition JSON_stringify :: "json \<Rightarrow> string list \<Rightarrow> string option" where
  "JSON_stringify v replacer = serializeProperty (propertyList replacer) v"

text \<open>
  \<open>Object.keys\<close>: the property names of an object in insertion order, the indices of an
  array as decimal strings.
\<close>

fun Object_keys :: "json \<Rightarrow> string list" where
  "Object_keys (JObj ps) = map fst ps"
| "Object_keys (JArr xs) = map showNat [0..<length xs]"
| "Object_keys _ = []"

text \<open>
  \<open>typeof arg === 'object' && arg !== null\<close> holds of arrays and objects.
  \<open>Array.prototype.sort\<close> without a comparator orders strings by code units; the
  model orders them lexicographically by bytes, which is the same order on ASCII names.
\<close>

fun isObject :: "json \<Rightarrow> bool" where
  "isObject (JObj ps) = True"
| "isObject (JArr xs) = True"
| "isObject _ = False"

definition cacheKeyPart :: "json \<Rightarrow> string" where
  "cacheKeyPart arg =
     (if isObject arg then
        (case JSON_stringify arg (sort (Object_keys arg)) of None \<Rightarrow> [] | Some s \<Rightarrow> s)
      else toStringPrimitive arg)"

definition generateCacheKey :: "string \<Rightarrow> json list \<Rightarrow> string" where
  "generateCacheKey pfx args = pfx @ '':'' @ joinWith '':'' (map cacheKeyPart args)"

text \<open>
  Two arguments that hold the same properties with the same values: equal values, or two
  objects with the same property names and, under each name, the same value, in
  whatever insertion order.
\<close>

fun sameProperties :: "json \<Rightarrow> json \<Rightarrow> bool" where
  "sameProperties (JObj ps) (JObj qs) =
     (set (map fst ps) = set (map fst qs) \<and> list_all (\<lambda>k. map_of ps k = map_of qs k) (map fst ps))"
| "sameProperties a b = (a = b)"

section \<open>The retry executor (lib/retry.ts)\<close>

subsection \<open>Message texts\<close>

text \<open>
  The source's messages are Chinese text. A string is the list of its UTF-8 bytes, so
  each message is written byte by byte; \<open>String.prototype.includes\<close> on such strings is
  the contiguous-sublist test \<open>sublist\<close>.
\<close>

text \<open>The message of the error the timeout timer rejects with (withRetry).\<close>

definition msgRequestTimeout :: string where
  "msgRequestTimeout =
    [CHR 0xE8, CHR 0xAB, CHR 0x8B, CHR 0xE6, CHR 0xB1, CHR 0x82, CHR 0xE8, CHR 0xB6,
     CHR 0x85, CHR 0xE6, CHR 0x99, CHR 0x82]"

text \<open>The message of every RateLimitError, and the body of the 429 response.\<close>

definition msgRateLimited :: string where
  "msgRateLimited =
    [CHR 0xE8, CHR 0xAB, CHR 0x8B, CHR 0xE6, CHR 0xB1, CHR 0x82, CHR 0xE9, CHR 0x81,
     CHR 0x8E, CHR 0xE6, CHR 0x96, CHR 0xBC, CHR 0xE9, CHR 0xA0, CHR 0xBB, CHR 0xE7,
     CHR 0xB9, CHR 0x81, CHR 0xEF, CHR 0xBC, CHR 0x8C, CHR 0xE8, CHR 0xAB, CHR 0x8B,
     CHR 0xE7, CHR 0xA8, CHR 0x8D, CHR 0xE5, CHR 0xBE, CHR 0x8C, CHR 0xE5, CHR 0x86,
     CHR 0x8D, CHR 0xE8, CHR 0xA9, CHR 0xA6]"

subsection \<open>Thrown values\<close>

text \<open>
  What a \<open>catch\<close> clause can receive, by the classes the source tests with
  \<open>instanceof\<close>. \<open>RateLimitError\<close> extends \<open>RetryableError\<close> with the fixed message, the status
  429 and a \<open>retryAfter\<close> in seconds. \<open>StatusError\<close> is an \<open>Error\<close> of another class that
  carries a \<open>statusCode\<close> property; \<open>OtherError\<close> is any other \<open>Error\<close> (the timeout error, an
  abort, a syntax error); \<open>NotAnError\<close> is a thrown value that is no \<open>Error\<close>, \<open>undefined\<close>
  included.
\<close>

datatype js_error =
    RetryableError string "int option" "int option"
  | RateLimitError int
  | APIError string int "string option" bool
  | StatusError string int
  | TypeError string
  | OtherError string
  | NotAnError

fun messageOf :: "js_error \<Rightarrow> string option" where
  "messageOf (RetryableError m sc ra) = Some m"
| "messageOf (RateLimitError ra) = Some msgRateLimited"
| "messageOf (APIError m sc code r) = Some m"
| "messageOf (StatusError m sc) = Some m"
| "messageOf (TypeError m) = Some m"
| "messageOf (OtherError m) = Some m"
| "messageOf NotAnError = None"

text \<open>\<open>error instanceof RetryableError\<close>, true of the subclass as well.\<close>

fun isRetryableErrorInstance :: "js_error \<Rightarrow> bool" where
  "isRetryableErrorInstance (RetryableError m sc ra) = True"
| "isRetryableErrorInstance (RateLimitError ra) = True"
| "isRetryableErrorInstance _ = False"

fun isRetryableError :: "js_error \<Rightarrow> bool" where
  "isRetryableError (RetryableError m sc ra) = True"
| "isRetryableError (RateLimitError ra) = True"
| "isRetryableError (APIError m sc code r) = r"
| "isRetryableError (StatusError m sc) = (sc \<ge> 500 \<or> sc = 429 \<or> sc = 408)"
| "isRetryableError (TypeError m) = sublist ''fetch'' m"
| "isRetryableError (OtherError m) = False"
| "isRetryableError NotAnError = False"

text \<open>\<open>error instanceof RetryableError ? error.retryAfter : undefined\<close>.\<close>

fun retryAfterOf :: "js_error \<Rightarrow> int option" where
  "retryAfterOf (RetryableError m sc ra) = ra"
| "retryAfterOf (RateLimitError ra) = Some ra"
| "retryAfterOf _ = None"

subsection \<open>Configuration\<close>

text \<open>
  Delays are real numbers of milliseconds. \<open>timeoutMs\<close> is optional; the test
  \<open>if (fullConfig.timeoutMs)\<close> is false for a missing and for a zero timeout.
\<close>

record RetryConfig =
  maxRetries :: int
  initialDelayMs :: real
  maxDelayMs :: real
  backoffMultiplier :: real
  timeoutMs :: "nat option"

definition DEFAULT_RETRY_CONFIG :: RetryConfig where
  "DEFAULT_RETRY_CONFIG =
     \<lparr>maxRetries = 3, initialDelayMs = 1000, maxDelayMs = 10000, backoffMultiplier = 2,
      timeoutMs = Some 30000\<rparr>"

text \<open>
  The argument \<open>config: Partial<RetryConfig>\<close>: a field that is \<open>None\<close> is absent and the
  spread \<open>{...DEFAULT_RETRY_CONFIG, ...config}\<close> keeps the default for it.
\<close>

record PartialRetryConfig =
  maxRetriesOpt :: "int option"
  initialDelayMsOpt :: "real option"
  maxDelayMsOpt :: "real option"
  backoffMultiplierOpt :: "real option"
  timeoutMsOpt :: "nat option"

definition emptyPartialConfig :: PartialRetryConfig where
  "emptyPartialConfig =
     \<lparr>maxRetriesOpt = None, initialDelayMsOpt = None, maxDelayMsOpt = None,
      backoffMultiplierOpt = None, timeoutMsOpt = None\<rparr>"

definition fullConfig :: "PartialRetryConfig \<Rightarrow> RetryConfig" where
  "fullConfig config =
     \<lparr>maxRetries = (case maxRetriesOpt config of None \<Rightarrow> maxRetries DEFAULT_RETRY_CONFIG | Some v \<Rightarrow> v),
      initialDelayMs = (case initialDelayMsOpt config of
                          None \<Rightarrow> initialDelayMs DEFAULT_RETRY_CONFIG | Some v \<Rightarrow> v),
      maxDelayMs = (case maxDelayMsOpt config of None \<Rightarrow> maxDelayMs DEFAULT_RETRY_CONFIG | Some v \<Rightarrow> v),
      backoffMultiplier = (case backoffMultiplierOpt config of
                             None \<Rightarrow> backoffMultiplier DEFAULT_RETRY_CONFIG | Some v \<Rightarrow> v),
      timeoutMs = (case timeoutMsOpt config of None \<Rightarrow> timeoutMs DEFAULT_RETRY_CONFIG | Some v \<Rightarrow> Some v)\<rparr>"

subsection \<open>Back-off\<close>

text \<open>
  \<open>calculateBackoff\<close>; \<open>random\<close> is the value \<open>Math.random()\<close> returns. The guard
  \<open>retryAfter && retryAfter > 0\<close> holds of a present, positive \<open>retryAfter\<close>.
\<close>

definition calculateBackoff :: "nat \<Rightarrow> RetryConfig \<Rightarrow> real \<Rightarrow> int option \<Rightarrow> real" where
  "calculateBackoff attempt config random retryAfterSec =
     (case retryAfterSec of
        Some r \<Rightarrow>
          if r > 0 then min (real_of_int r * 1000) (maxDelayMs config)
          else (let exponentialDelay = initialDelayMs config * backoffMultiplier config ^ attempt;
                    jitter = random * 0.3 * exponentialDelay
                in min (exponentialDelay + jitter) (maxDelayMs config))
      | None \<Rightarrow>
          (let exponentialDelay = initialDelayMs config * backoffMultiplier config ^ attempt;
               jitter = random * 0.3 * exponentialDelay
           in min (exponentialDelay + jitter) (maxDelayMs config)))"

subsection \<open>One attempt\<close>

text \<open>
  The operation \<open>fn\<close> acts on a world of type \<open>'s\<close> and returns a promise:
  \<open>Settles d r\<close> settles \<open>d\<close> milliseconds after the call, fulfilled with \<open>Inr v\<close> or
  rejected with \<open>Inl e\<close>; \<open>Never\<close> stays pending for ever. An \<open>await\<close> ends in one of three
  ways: a value, a thrown error, or no continuation at all (\<open>Hung\<close>).
\<close>

datatype 'a promise = Settles nat "js_error + 'a" | Never

datatype 'a outcome = Returned 'a | Thrown js_error | Hung

fun settled :: "js_error + 'a \<Rightarrow> 'a outcome" where
  "settled (Inr v) = Returned v"
| "settled (Inl e) = Thrown e"

fun await :: "'a promise \<Rightarrow> 'a outcome" where
  "await (Settles d r) = settled r"
| "await Never = Hung"

text \<open>
  \<open>Promise.race([fn(), timer])\<close> with a timer of \<open>t\<close> milliseconds that rejects with
  \<open>new Error(msgRequestTimeout)\<close>. The operation was started before the timer was set, so
  a promise due at the same instant as the timer settles first.
\<close>

fun raceWithTimer :: "nat \<Rightarrow> 'a promise \<Rightarrow> 'a outcome" where
  "raceWithTimer t (Settles d r) = (if d \<le> t then settled r else Thrown (OtherError msgRequestTimeout))"
| "raceWithTimer t Never = Thrown (OtherError msgRequestTimeout)"

text \<open>The body of the \<open>try\<close> block, given the promise \<open>fn()\<close> returned.\<close>

definition attemptOutcome :: "RetryConfig \<Rightarrow> 'a promise \<Rightarrow> 'a outcome" where
  "attemptOutcome config p =
     (case timeoutMs config of
        None \<Rightarrow> await p
      | Some t \<Rightarrow> if t \<noteq> 0 then raceWithTimer t p else await p)"

subsection \<open>withRetry\<close>

text \<open>
  The loop \<open>for (attempt = 0; attempt <= maxRetries; attempt++)\<close>. The result is the
  outcome of the call, the delays slept between attempts, and the world the attempts
  leave. \<open>rnd attempt\<close> is the value \<open>Math.random()\<close> returns in the back-off after that
  attempt. When the loop ends without an attempt (\<open>maxRetries < 0\<close>), \<open>throw lastError\<close>
  throws \<open>undefined\<close>. The console output is not modelled.
\<close>

function withRetryLoop ::
  "('s \<Rightarrow> 'a promise \<times> 's) \<Rightarrow> RetryConfig \<Rightarrow> (nat \<Rightarrow> real) \<Rightarrow> nat \<Rightarrow> js_error option \<Rightarrow>
   real list \<Rightarrow> 's \<Rightarrow> 'a outcome \<times> real list \<times> 's" where
  "withRetryLoop fn config rnd attempt lastError slept s =
     (if int attempt \<le> maxRetries config then
        (case fn s of
           (p, s') \<Rightarrow>
             (case attemptOutcome config p of
                Returned v \<Rightarrow> (Returned v, slept, s')
              | Hung \<Rightarrow> (Hung, slept, s')
              | Thrown e \<Rightarrow>
                  if int attempt \<ge> maxRetries config \<or> \<not> isRetryableError e then
                    (Thrown e, slept, s')
                  else
                    withRetryLoop fn config rnd (Suc attempt) (Some e)
                      (slept @ [calculateBackoff attempt config (rnd attempt) (retryAfterOf e)]) s'))
      else (Thrown (case lastError of None \<Rightarrow> NotAnError | Some e \<Rightarrow> e), slept, s))"
  by pat_completeness auto
termination
  by (relation "measure (\<lambda>(fn, config, rnd, attempt, lastError, slept, s).
        nat (maxRetries config + 1 - int attempt))") auto

declare withRetryLoop.simps [simp del]

definition withRetry ::
  "('s \<Rightarrow> 'a promise \<times> 's) \<Rightarrow> PartialRetryConfig \<Rightarrow> (nat \<Rightarrow> real) \<Rightarrow> 's \<Rightarrow>
   'a outcome \<times> real list \<times> 's" where
  "withRetry fn config rnd s = withRetryLoop fn (fullConfig config) rnd 0 None [] s"

text \<open>
  Counting invocations, as a mock function does: the world is paired with a counter that
  every call of the operation increments.
\<close>

definition counting :: "('s \<Rightarrow> 'a promise \<times> 's) \<Rightarrow> nat \<times> 's \<Rightarrow> 'a promise \<times> (nat \<times> 's)" where
  "counting fn = (\<lambda>(n, s). case fn s of (p, s') \<Rightarrow> (p, (Suc n, s')))"

text \<open>The number of invocations \<open>withRetry\<close> makes of \<open>fn\<close>, started in world \<open>s\<close>.\<close>

definition invocations ::
  "('s \<Rightarrow> 'a promise \<times> 's) \<Rightarrow> PartialRetryConfig \<Rightarrow> (nat \<Rightarrow> real) \<Rightarrow> 's \<Rightarrow> nat" where
  "invocations fn config rnd s = fst (snd (snd (withRetry (counting fn) config rnd (0, s))))"

text \<open>
  An attempt times out when a timer is set and the promise is not settled by the time it
  fires.
\<close>

definition timesOut :: "RetryConfig \<Rightarrow> 'a promise \<Rightarrow> bool" where
  "timesOut config p =
     (case timeoutMs config of
        None \<Rightarrow> False
      | Some t \<Rightarrow> t \<noteq> 0 \<and> (case p of Settles d r \<Rightarrow> t < d | Never \<Rightarrow> True))"

text \<open>An operation that never settles, for concrete runs; its world is a call counter.\<close>

definition neverSettles :: "nat \<Rightarrow> string promise \<times> nat" where
  "neverSettles n = (Never, Suc n)"

text \<open>An operation that is rejected at once with the given error on every call.\<close>

definition alwaysRejects :: "js_error \<Rightarrow> nat \<Rightarrow> string promise \<times> nat" where
  "alwaysRejects e n = (Settles 0 (Inl e), Suc n)"

subsection \<open>Message texts of the LLM layer and the route\<close>

text \<open>The word \<open>callLLM\<close> looks for in an error message to recognise a timeout.\<close>

definition txtTimeoutWord :: string where
  "txtTimeoutWord =
    [CHR 0xE8, CHR 0xB6, CHR 0x85, CHR 0xE6, CHR 0x99, CHR 0x82]"

text \<open>The default text when no API key is configured.\<close>

definition msgNoApiKey :: string where
  "msgNoApiKey =
    [CHR 0x41, CHR 0x50, CHR 0x49, CHR 0x20, CHR 0xE9, CHR 0x87, CHR 0x91, CHR 0xE9,
     CHR 0x91, CHR 0xB0, CHR 0xE6, CHR 0x9C, CHR 0xAA, CHR 0xE8, CHR 0xA8, CHR 0xAD,
     CHR 0xE5, CHR 0xAE, CHR 0x9A, CHR 0xEF, CHR 0xBC, CHR 0x8C, CHR 0xE8, CHR 0xAB,
     CHR 0x8B, CHR 0xE8, CHR 0x81, CHR 0xAF, CHR 0xE7, CHR 0xB9, CHR 0xAB, CHR 0xE7,
     CHR 0xAE, CHR 0xA1, CHR 0xE7, CHR 0x90, CHR 0x86, CHR 0xE5, CHR 0x93, CHR 0xA1]"

text \<open>The default text after a RateLimitError.\<close>

definition msgBusy :: string where
  "msgBusy =
    [CHR 0xE6, CHR 0x9C, CHR 0x8D, CHR 0xE5, CHR 0x8B, CHR 0x99, CHR 0xE7, CHR 0xB9,
     CHR 0x81, CHR 0xE5, CHR 0xBF, CHR 0x99, CHR 0xE4, CHR 0xB8, CHR 0xAD, CHR 0xEF,
     CHR 0xBC, CHR 0x8C, CHR 0xE8, CHR 0xAB, CHR 0x8B, CHR 0xE7, CHR 0xA8, CHR 0x8D,
     CHR 0xE5, CHR 0xBE, CHR 0x8C, CHR 0xE5, CHR 0x86, CHR 0x8D, CHR 0xE8, CHR 0xA9,
     CHR 0xA6]"

text \<open>The default text after an APIError, up to the error code.\<close>

definition msgUnavailablePrefix :: string where
  "msgUnavailablePrefix =
    [CHR 0xE6, CHR 0x9C, CHR 0x8D, CHR 0xE5, CHR 0x8B, CHR 0x99, CHR 0xE6, CHR 0x9A,
     CHR 0xAB, CHR 0xE6, CHR 0x99, CHR 0x82, CHR 0xE4, CHR 0xB8, CHR 0x8D, CHR 0xE5,
     CHR 0x8F, CHR 0xAF, CHR 0xE7, CHR 0x94, CHR 0xA8, CHR 0x20, CHR 0x28]"

text \<open>The default text after a timeout.\<close>

definition msgResponseTimeout :: string where
  "msgResponseTimeout =
    [CHR 0xE6, CHR 0x9C, CHR 0x8D, CHR 0xE5, CHR 0x8B, CHR 0x99, CHR 0xE5, CHR 0x9B,
     CHR 0x9E, CHR 0xE6, CHR 0x87, CHR 0x89, CHR 0xE8, CHR 0xB6, CHR 0x85, CHR 0xE6,
     CHR 0x99, CHR 0x82, CHR 0xEF, CHR 0xBC, CHR 0x8C, CHR 0xE8, CHR 0xAB, CHR 0x8B,
     CHR 0xE7, CHR 0xA8, CHR 0x8D, CHR 0xE5, CHR 0xBE, CHR 0x8C, CHR 0xE5, CHR 0x86,
     CHR 0x8D, CHR 0xE8, CHR 0xA9, CHR 0xA6]"

text \<open>The default text after any other error.\<close>

definition msgCannotConnect :: string where
  "msgCannotConnect =
    [CHR 0xE7, CHR 0x84, CHR 0xA1, CHR 0xE6, CHR 0xB3, CHR 0x95, CHR 0xE9, CHR 0x80,
     CHR 0xA3, CHR 0xE6, CHR 0x8E, CHR 0xA5, CHR 0x20, CHR 0x41, CHR 0x49, CHR 0x20,
     CHR 0xE6, CHR 0x9C, CHR 0x8D, CHR 0xE5, CHR 0x8B, CHR 0x99, CHR 0xEF, CHR 0xBC,
     CHR 0x8C, CHR 0xE8, CHR 0xAB, CHR 0x8B, CHR 0xE6, CHR 0xAA, CHR 0xA2, CHR 0xE6,
     CHR 0x9F, CHR 0xA5, CHR 0xE7, CHR 0xB6, CHR 0xB2, CHR 0xE8, CHR 0xB7, CHR 0xAF,
     CHR 0xE9, CHR 0x80, CHR 0xA3, CHR 0xE7, CHR 0xB7, CHR 0x9A]"

text \<open>The palace text of \<open>getDefaultResult\<close> called without a message.\<close>

definition msgDefaultPalace :: string where
  "msgDefaultPalace =
    [CHR 0xE7, CHR 0x84, CHR 0xA1, CHR 0xE6, CHR 0xB3, CHR 0x95, CHR 0xE7, CHR 0x94,
     CHR 0x9F, CHR 0xE6, CHR 0x88, CHR 0x90, CHR 0xE8, CHR 0xA7, CHR 0xA3, CHR 0xE8,
     CHR 0xAE, CHR 0x80, CHR 0xEF, CHR 0xBC, CHR 0x8C, CHR 0xE8, CHR 0xAB, CHR 0x8B,
     CHR 0xE7, CHR 0xA8, CHR 0x8D, CHR 0xE5, CHR 0xBE, CHR 0x8C, CHR 0xE5, CHR 0x86,
     CHR 0x8D, CHR 0xE8, CHR 0xA9, CHR 0xA6, CHR 0xE3, CHR 0x80, CHR 0x82]"

text \<open>The summary of \<open>getDefaultResult\<close> called without a message.\<close>

definition msgDefaultSummary :: string where
  "msgDefaultSummary =
    [CHR 0xE7, CHR 0x9B, CHR 0xAE, CHR 0xE5, CHR 0x89, CHR 0x8D, CHR 0xE7, CHR 0x84,
     CHR 0xA1, CHR 0xE6, CHR 0xB3, CHR 0x95, CHR 0xE9, CHR 0x80, CHR 0xA3, CHR 0xE6,
     CHR 0x8E, CHR 0xA5, CHR 0x20, CHR 0x41, CHR 0x49, CHR 0x20, CHR 0xE6, CHR 0x9C,
     CHR 0x8D, CHR 0xE5, CHR 0x8B, CHR 0x99, CHR 0xEF, CHR 0xBC, CHR 0x8C, CHR 0xE8,
     CHR 0xAB, CHR 0x8B, CHR 0xE6, CHR 0xAA, CHR 0xA2, CHR 0xE6, CHR 0x9F, CHR 0xA5,
     CHR 0xE7, CHR 0xB6, CHR 0xB2, CHR 0xE8, CHR 0xB7, CHR 0xAF, CHR 0xE9, CHR 0x80,
     CHR 0xA3, CHR 0xE7, CHR 0xB7, CHR 0x9A, CHR 0xE6, CHR 0x88, CHR 0x96, CHR 0xE7,
     CHR 0xA8, CHR 0x8D, CHR 0xE5, CHR 0xBE, CHR 0x8C, CHR 0xE5, CHR 0x86, CHR 0x8D,
     CHR 0xE8, CHR 0xA9, CHR 0xA6, CHR 0xE3, CHR 0x80, CHR 0x82]"

text \<open>The body of the 400 response.\<close>

definition msgMissingChart :: string where
  "msgMissingChart =
    [CHR 0xE7, CHR 0xBC, CHR 0xBA, CHR 0xE5, CHR 0xB0, CHR 0x91, CHR 0xE5, CHR 0x91,
     CHR 0xBD, CHR 0xE7, CHR 0x9B, CHR 0xA4, CHR 0xE8, CHR 0xB3, CHR 0x87, CHR 0xE6,
     CHR 0x96, CHR 0x99]"

text \<open>The body of the 500 response.\<close>

definition msgInterpretFailed :: string where
  "msgInterpretFailed =
    [CHR 0xE8, CHR 0xA7, CHR 0xA3, CHR 0xE9, CHR 0x87, CHR 0x8B, CHR 0xE7, CHR 0x94,
     CHR 0x9F, CHR 0xE6, CHR 0x88, CHR 0x90, CHR 0xE5, CHR 0xA4, CHR 0xB1, CHR 0xE6,
     CHR 0x95, CHR 0x97]"

section \<open>The LLM layer (lib/llm.ts)\<close>

subsection \<open>Data\<close>

text \<open>
  Of an \<open>Astrolabe\<close> only \<open>chartId\<close> decides anything here; the other fields (name, birth
  data, the twelve palaces, the engine's original data) reach the prompt only and are
  kept as one opaque value. Of \<open>FortuneData\<close> the fields that the route and the prompt
  read are kept.
\<close>

record Astrolabe =
  chartId :: string
  chartContent :: string

record FortuneData =
  scope :: string
  decadeRange :: "(int \<times> int) option"
  year :: "int option"
  month :: "int option"
  day :: "int option"

record InterpretResult =
  life :: string
  siblings :: string
  marriage :: string
  children :: string
  wealth :: string
  health :: string
  travel :: string
  friends :: string
  career :: string
  property :: string
  fortune :: string
  parents :: string
  summary :: string
  todayAdvice :: "string list"
  todayTodo :: "string list"
  todayAvoid :: "string list"

record LLMConfig =
  apiKey :: string
  model :: string
  maxTokens :: int
  temperature :: real
  llmTimeoutMs :: nat

text \<open>The two environment variables \<open>getLLMConfig\<close> reads; \<open>None\<close> is an unset variable.\<close>

record Env =
  OPENAI_API_KEY :: "string option"
  OPENAI_MODEL :: "string option"

definition getLLMConfig :: "Env \<Rightarrow> LLMConfig" where
  "getLLMConfig env =
     \<lparr>apiKey = (case OPENAI_API_KEY env of None \<Rightarrow> [] | Some k \<Rightarrow> k),
      model = (case OPENAI_MODEL env of
                 None \<Rightarrow> ''gpt-4o-mini''
               | Some m \<Rightarrow> if m \<noteq> [] then m else ''gpt-4o-mini''),
      maxTokens = 4096, temperature = 0.7, llmTimeoutMs = 30000\<rparr>"

definition MODEL_FALLBACK_ORDER :: "string list" where
  "MODEL_FALLBACK_ORDER = [''gpt-4o-mini'', ''gpt-3.5-turbo'']"

subsection \<open>The model chain and the fallback loop\<close>

text \<open>
  \<open>for (const fallbackModel of ...) if (!models.includes(fallbackModel)) models.push(fallbackModel)\<close>.
\<close>

fun addFallbacks :: "string list \<Rightarrow> string list \<Rightarrow> string list" where
  "addFallbacks models [] = models"
| "addFallbacks models (fallbackModel # rest) =
     addFallbacks (if fallbackModel \<in> set models then models else models @ [fallbackModel]) rest"

definition modelChain :: "LLMConfig \<Rightarrow> string list" where
  "modelChain config = addFallbacks [model config] MODEL_FALLBACK_ORDER"

text \<open>
  \<open>callOpenAIAPI(messages, config, model)\<close> sends the request for \<open>model || config.model\<close>.
  The HTTP exchange and its classification into the content or a thrown error is the
  Narrative Generator, a parameter \<open>api\<close>: for a model name it acts on the world and
  returns a promise of the content.
\<close>

definition callOpenAIAPI ::
  "(string \<Rightarrow> 's \<Rightarrow> string promise \<times> 's) \<Rightarrow> LLMConfig \<Rightarrow> string \<Rightarrow> 's \<Rightarrow> string promise \<times> 's" where
  "callOpenAIAPI api config m = api (if m \<noteq> [] then m else model config)"

text \<open>The retry policy \<open>callOpenAIWithFallback\<close> passes to \<open>withRetry\<close> for every model.\<close>

definition fallbackRetryConfig :: "LLMConfig \<Rightarrow> PartialRetryConfig" where
  "fallbackRetryConfig config =
     \<lparr>maxRetriesOpt = Some 2, initialDelayMsOpt = Some 1000, maxDelayMsOpt = Some 5000,
      backoffMultiplierOpt = None, timeoutMsOpt = Some (llmTimeoutMs config)\<rparr>"

text \<open>
  The loop \<open>for (const model of models)\<close>: a value returns at once; any error, a
  \<open>RateLimitError\<close> or another, is recorded in \<open>lastError\<close> and the loop goes on; after the
  last model \<open>throw lastError\<close>. \<open>rnd m\<close> gives the random values of the back-offs for
  model \<open>m\<close>.
\<close>

fun fallbackLoop ::
  "(string \<Rightarrow> 's \<Rightarrow> string promise \<times> 's) \<Rightarrow> LLMConfig \<Rightarrow> (string \<Rightarrow> nat \<Rightarrow> real) \<Rightarrow> string list \<Rightarrow>
   js_error option \<Rightarrow> 's \<Rightarrow> string outcome \<times> 's" where
  "fallbackLoop api config rnd [] lastError s =
     (Thrown (case lastError of None \<Rightarrow> NotAnError | Some e \<Rightarrow> e), s)"
| "fallbackLoop api config rnd (m # ms) lastError s =
     (case withRetry (callOpenAIAPI api config m) (fallbackRetryConfig config) (rnd m) s of
        (Returned v, slept, s') \<Rightarrow> (Returned v, s')
      | (Thrown e, slept, s') \<Rightarrow> fallbackLoop api config rnd ms (Some e) s'
      | (Hung, slept, s') \<Rightarrow> (Hung, s'))"

definition callOpenAIWithFallback ::
  "(string \<Rightarrow> 's \<Rightarrow> string promise \<times> 's) \<Rightarrow> LLMConfig \<Rightarrow> (string \<Rightarrow> nat \<Rightarrow> real) \<Rightarrow> 's \<Rightarrow>
   string outcome \<times> 's" where
  "callOpenAIWithFallback api config rnd s = fallbackLoop api config rnd (modelChain config) None s"

text \<open>
  Recording the generator's calls: the world is paired with the list of the model names
  the generator was called with, in order.
\<close>

definition recording ::
  "(string \<Rightarrow> 's \<Rightarrow> 'a promise \<times> 's) \<Rightarrow> string \<Rightarrow> string list \<times> 's \<Rightarrow> 'a promise \<times> (string list \<times> 's)" where
  "recording api m = (\<lambda>(calls, s). case api m s of (p, s') \<Rightarrow> (p, (calls @ [m], s')))"

text \<open>One retried call of one model, as the loop makes it.\<close>

definition retriedCall ::
  "(string \<Rightarrow> 's \<Rightarrow> string promise \<times> 's) \<Rightarrow> LLMConfig \<Rightarrow> (string \<Rightarrow> nat \<Rightarrow> real) \<Rightarrow> string \<Rightarrow> 's \<Rightarrow>
   string outcome \<times> real list \<times> 's" where
  "retriedCall api config rnd m s =
     withRetry (callOpenAIAPI api config m) (fallbackRetryConfig config) (rnd m) s"

text \<open>
  The run of the chain, told from the retried calls: \<open>chainRun\<close> lists, for the models
  tried in order, the outcome of each retried call, and stops after the first that does
  not throw.
\<close>

fun chainRun ::
  "(string \<Rightarrow> 's \<Rightarrow> string promise \<times> 's) \<Rightarrow> LLMConfig \<Rightarrow> (string \<Rightarrow> nat \<Rightarrow> real) \<Rightarrow> string list \<Rightarrow>
   's \<Rightarrow> (string \<times> string outcome) list" where
  "chainRun api config rnd [] s = []"
| "chainRun api config rnd (m # ms) s =
     (case retriedCall api config rnd m s of
        (Thrown e, slept, s') \<Rightarrow> (m, Thrown e) # chainRun api config rnd ms s'
      | (r, slept, s') \<Rightarrow> [(m, r)])"

fun isThrown :: "'a outcome \<Rightarrow> bool" where
  "isThrown (Thrown e) = True"
| "isThrown _ = False"

text \<open>A generator that answers every model with a rate-limit error; its world is unit.\<close>

definition alwaysRateLimited :: "string \<Rightarrow> unit \<Rightarrow> string promise \<times> unit" where
  "alwaysRateLimited m u = (Settles 100 (Inl (RateLimitError 1)), u)"

text \<open>
  A generator whose first model is rejected as a client error (not retryable) and whose
  other models answer.
\<close>

definition firstModelRejected :: "string \<Rightarrow> unit \<Rightarrow> string promise \<times> unit" where
  "firstModelRejected m u =
     (if m = ''gpt-4'' then (Settles 100 (Inl (APIError ''bad request'' 400 None False)), u)
      else (Settles 100 (Inr ''{}''), u))"

definition demoLLMConfig :: LLMConfig where
  "demoLLMConfig = getLLMConfig \<lparr>OPENAI_API_KEY = Some ''sk-test'', OPENAI_MODEL = Some ''gpt-4''\<rparr>"

subsection \<open>callLLM\<close>

text \<open>\<open>errorMessage || fallback\<close> on an optional string: the fallback for a missing or empty one.\<close>

definition orElse :: "string option \<Rightarrow> string \<Rightarrow> string" where
  "orElse m d = (case m of None \<Rightarrow> d | Some t \<Rightarrow> if t \<noteq> [] then t else d)"

definition getDefaultResult :: "string option \<Rightarrow> InterpretResult" where
  "getDefaultResult errorMessage =
     (let defaultText = orElse errorMessage msgDefaultPalace in
      \<lparr>life = defaultText, siblings = defaultText, marriage = defaultText, children = defaultText,
       wealth = defaultText, health = defaultText, travel = defaultText, friends = defaultText,
       career = defaultText, property = defaultText, fortune = defaultText, parents = defaultText,
       summary = orElse errorMessage msgDefaultSummary,
       todayAdvice = [], todayTodo = [], todayAvoid = []\<rparr>)"

text \<open>
  The message \<open>callLLM\<close>'s \<open>catch\<close> clause chooses, in the order of its tests:
  \<open>RateLimitError\<close>, \<open>APIError\<close> (with \<open>error.code || error.statusCode\<close>), an \<open>Error\<close> whose
  message includes the timeout word, anything else.
\<close>

fun failureText :: "js_error \<Rightarrow> string" where
  "failureText (RateLimitError ra) = msgBusy"
| "failureText (APIError m sc code r) =
     msgUnavailablePrefix @ (case code of None \<Rightarrow> showInt sc
                             | Some c \<Rightarrow> if c \<noteq> [] then c else showInt sc) @ '')''"
| "failureText e =
     (case messageOf e of
        None \<Rightarrow> msgCannotConnect
      | Some m \<Rightarrow> if sublist txtTimeoutWord m then msgResponseTimeout else msgCannotConnect)"

text \<open>
  What a deployment fixes: the environment, whether the persistent store is configured,
  the store's lookup \<open>getCachedInterpretation\<close> (\<open>Some r\<close> is a successful lookup with a
  result, \<open>None\<close> any other answer; the function catches its own errors), the Narrative
  Generator (the chat completion for the prompt built from a chart and a fortune, per
  model name), \<open>parseLLMResponse\<close> (total: it catches its own errors), and the random
  values of the back-offs. The external world has type \<open>'s\<close>.
\<close>

record 's Services =
  env :: Env
  isSupabaseConfigured :: bool
  getCachedInterpretation :: "string \<Rightarrow> string \<Rightarrow> json \<Rightarrow> 's \<Rightarrow> InterpretResult option \<times> 's"
  generator :: "Astrolabe \<Rightarrow> FortuneData option \<Rightarrow> string \<Rightarrow> 's \<Rightarrow> string promise \<times> 's"
  parseLLMResponse :: "string \<Rightarrow> InterpretResult"
  random :: "string \<Rightarrow> nat \<Rightarrow> real"

text \<open>
  \<open>callLLM\<close>. The function has no \<open>throw\<close> of its own; an error of
  \<open>callOpenAIWithFallback\<close> is caught and turned into a default result. The chart passed
  in is of type \<open>Astrolabe\<close>, on which \<open>buildChartData\<close> does not fail. \<open>topics\<close> is not
  read.
\<close>

definition callLLM ::
  "'s Services \<Rightarrow> Astrolabe \<Rightarrow> FortuneData option \<Rightarrow> string list \<Rightarrow> 's \<Rightarrow> InterpretResult outcome \<times> 's" where
  "callLLM sv astrolabe fortuneData topics s =
     (let config = getLLMConfig (env sv) in
      if apiKey config = [] then (Returned (getDefaultResult (Some msgNoApiKey)), s)
      else
        (case callOpenAIWithFallback (generator sv astrolabe fortuneData) config (random sv) s of
           (Returned content, s') \<Rightarrow> (Returned (parseLLMResponse sv content), s')
         | (Thrown e, s') \<Rightarrow> (Returned (getDefaultResult (Some (failureText e))), s')
         | (Hung, s') \<Rightarrow> (Hung, s')))"

text \<open>The thirteen texts of a result are all non-empty.\<close>

definition textsNonEmpty :: "InterpretResult \<Rightarrow> bool" where
  "textsNonEmpty r =
     (life r \<noteq> [] \<and> siblings r \<noteq> [] \<and> marriage r \<noteq> [] \<and> children r \<noteq> [] \<and> wealth r \<noteq> [] \<and>
      health r \<noteq> [] \<and> travel r \<noteq> [] \<and> friends r \<noteq> [] \<and> career r \<noteq> [] \<and> property r \<noteq> [] \<and>
      fortune r \<noteq> [] \<and> parents r \<noteq> [] \<and> summary r \<noteq> [])"

section \<open>The interpret route (app/api/interpret/route.ts)\<close>

subsection \<open>Requests and responses\<close>

text \<open>
  A request: the identity \<open>getClientIP(request)\<close> resolves, and the parsed JSON body
  (\<open>None\<close> when \<open>request.json()\<close> throws). In the body, \<open>astrolabe\<close> is missing (falsy) or
  of type \<open>Astrolabe\<close>, \<open>fortune\<close> is \<open>null\<close> or of type \<open>FortuneData\<close>.
\<close>

record RequestBody =
  bodyAstrolabe :: "Astrolabe option"
  bodyFortune :: "FortuneData option"
  bodyTopics :: "string list option"

record Request =
  clientIP :: string
  requestBody :: "RequestBody option"

text \<open>The readings of \<open>Date.now()\<close> during one request, in the order they are taken.\<close>

record Clock =
  atRateLimit :: int
  atCacheGet :: int
  atCacheSet :: int

text \<open>The two module-level stores of the server process.\<close>

record ServerState =
  limits :: rateLimitStore
  interpretCache :: "InterpretResult LRUCache"

datatype CacheSource = Memory | Supabase | LLM

fun cacheSourceName :: "CacheSource \<Rightarrow> string" where
  "cacheSourceName Memory = ''memory''"
| "cacheSourceName Supabase = ''supabase''"
| "cacheSourceName LLM = ''llm''"

text \<open>\<open>cacheSource.toUpperCase()\<close>.\<close>

fun cacheSourceUpper :: "CacheSource \<Rightarrow> string" where
  "cacheSourceUpper Memory = ''MEMORY''"
| "cacheSourceUpper Supabase = ''SUPABASE''"
| "cacheSourceUpper LLM = ''LLM''"

datatype ResponseBody =
    ResultBody InterpretResult
  | ErrorBody string
  | RateLimitBody string "int option"

text \<open>A response: the status, the JSON body, and the headers the code sets by name.\<close>

record Response =
  status :: int
  body :: ResponseBody
  headers :: "(string \<times> string) list"

text \<open>The call \<open>saveInterpretation(chartId, fortuneScope, fortuneParams, result)\<close>.\<close>

datatype SaveRequest = SaveInterpretation string string json InterpretResult

subsection \<open>Helpers of the route\<close>

text \<open>\<open>fortune.year || 0\<close> and its like: zero for a missing value.\<close>

definition orZero :: "int option \<Rightarrow> int" where
  "orZero v = (case v of None \<Rightarrow> 0 | Some n \<Rightarrow> n)"

definition buildInterpretCacheKey :: "Astrolabe \<Rightarrow> FortuneData option \<Rightarrow> string" where
  "buildInterpretCacheKey astrolabe fortuneData =
     (case fortuneData of
        None \<Rightarrow> generateCacheKey ''interpret'' [JStr (chartId astrolabe), JStr ''natal'']
      | Some f \<Rightarrow>
          if scope f = ''natal'' then
            generateCacheKey ''interpret'' [JStr (chartId astrolabe), JStr ''natal'']
          else
            (let decadeKey = (case decadeRange f of
                                None \<Rightarrow> ''nodecade''
                              | Some (start, end) \<Rightarrow> showInt start @ ''-'' @ showInt end);
                 fortuneKey = scope f @ ''-'' @ decadeKey @ ''-'' @ showInt (orZero (year f)) @ ''-'' @
                              showInt (orZero (month f)) @ ''-'' @ showInt (orZero (day f))
             in generateCacheKey ''interpret'' [JStr (chartId astrolabe), JStr fortuneKey]))"

text \<open>\<open>fortune?.scope || 'natal'\<close>.\<close>

definition getFortuneScope :: "FortuneData option \<Rightarrow> string" where
  "getFortuneScope fortuneData =
     (case fortuneData of None \<Rightarrow> ''natal'' | Some f \<Rightarrow> if scope f \<noteq> [] then scope f else ''natal'')"

definition numberOrUndefined :: "int option \<Rightarrow> json" where
  "numberOrUndefined v = (case v of None \<Rightarrow> JUndefined | Some n \<Rightarrow> JNum n)"

definition buildFortuneParams :: "FortuneData option \<Rightarrow> json" where
  "buildFortuneParams fortuneData =
     (case fortuneData of
        None \<Rightarrow> JObj [(''scope'', JStr ''natal'')]
      | Some f \<Rightarrow>
          JObj [(''scope'', JStr (scope f)),
                (''year'', numberOrUndefined (year f)),
                (''month'', numberOrUndefined (month f)),
                (''day'', numberOrUndefined (day f)),
                (''decadeRange'',
                   (case decadeRange f of
                      None \<Rightarrow> JUndefined
                    | Some (start, end) \<Rightarrow> JObj [(''start'', JNum start), (''end'', JNum end)]))])"

text \<open>\<open>createRateLimitResponse\<close>; \<open>result.retryAfter || 60\<close> is 60 for a missing or zero value.\<close>

definition createRateLimitResponse :: "RateLimitResult \<Rightarrow> Response" where
  "createRateLimitResponse result =
     \<lparr>status = 429,
      body = RateLimitBody msgRateLimited (retryAfter result),
      headers =
        [(''Content-Type'', ''application/json''),
         (''Retry-After'',
            showInt (case retryAfter result of None \<Rightarrow> 60 | Some r \<Rightarrow> if r \<noteq> 0 then r else 60)),
         (''X-RateLimit-Remaining'', showInt (remaining result)),
         (''X-RateLimit-Reset'', showInt (resultResetTime result))]\<rparr>"

text \<open>The successful response: \<open>NextResponse.json(result)\<close> and the four headers set on it.\<close>

definition resultResponse :: "InterpretResult \<Rightarrow> CacheSource \<Rightarrow> RateLimitResult \<Rightarrow> Response" where
  "resultResponse result cacheSource rateLimitResult =
     \<lparr>status = 200,
      body = ResultBody result,
      headers =
        [(''X-RateLimit-Remaining'', showInt (remaining rateLimitResult)),
         (''X-RateLimit-Reset'', showInt (resultResetTime rateLimitResult)),
         (''X-Cache'', cacheSourceUpper cacheSource),
         (''X-Cache-Source'', cacheSourceName cacheSource)]\<rparr>"

definition errorResponse :: "string \<Rightarrow> int \<Rightarrow> Response" where
  "errorResponse message code = \<lparr>status = code, body = ErrorBody message, headers = []\<rparr>"

text \<open>The memory TTL the route passes to \<open>interpretCache.set\<close>: \<open>5 * 60 * 1000\<close>.\<close>

definition memoryTTL :: int where
  "memoryTTL = 5 * 60 * 1000"

subsection \<open>POST\<close>

text \<open>
  The third tier: \<open>callLLM\<close>, then the memory cache is filled and, when the store is
  configured, \<open>saveInterpretation\<close> is started and not awaited (it is returned as a
  started call). An error thrown inside the \<open>try\<close> block gives the 500 response.
\<close>

definition computeTier ::
  "'s Services \<Rightarrow> Clock \<Rightarrow> RateLimitResult \<Rightarrow> Astrolabe \<Rightarrow> FortuneData option \<Rightarrow> string list \<Rightarrow> string \<Rightarrow>
   ServerState \<times> 's \<Rightarrow> Response option \<times> SaveRequest list \<times> ServerState \<times> 's" where
  "computeTier sv clk rateLimitResult astrolabe fortuneData topics memoryCacheKey = (\<lambda>(st, w).
     (case callLLM sv astrolabe fortuneData topics w of
        (Returned result, w') \<Rightarrow>
          (Some (resultResponse result LLM rateLimitResult),
           (if isSupabaseConfigured sv then
              [SaveInterpretation (chartId astrolabe) (getFortuneScope fortuneData)
                 (buildFortuneParams fortuneData) result]
            else []),
           st\<lparr>interpretCache :=
                lru_set (atCacheSet clk) memoryCacheKey result (Some memoryTTL) (interpretCache st)\<rparr>,
           w')
      | (Thrown e, w') \<Rightarrow> (Some (errorResponse msgInterpretFailed 500), [], st, w')
      | (Hung, w') \<Rightarrow> (None, [], st, w')))"

text \<open>
  The second tier, entered on a memory miss: the persistent store is asked when it is
  configured; a hit is written back to the memory cache.
\<close>

definition persistentTier ::
  "'s Services \<Rightarrow> Clock \<Rightarrow> RateLimitResult \<Rightarrow> Astrolabe \<Rightarrow> FortuneData option \<Rightarrow> string list \<Rightarrow> string \<Rightarrow>
   ServerState \<times> 's \<Rightarrow> Response option \<times> SaveRequest list \<times> ServerState \<times> 's" where
  "persistentTier sv clk rateLimitResult astrolabe fortuneData topics memoryCacheKey = (\<lambda>(st, w).
     (case (if isSupabaseConfigured sv then
              getCachedInterpretation sv (chartId astrolabe) (getFortuneScope fortuneData)
                (buildFortuneParams fortuneData) w
            else (None, w)) of
        (Some result, w') \<Rightarrow>
          (Some (resultResponse result Supabase rateLimitResult), [],
           st\<lparr>interpretCache :=
                lru_set (atCacheSet clk) memoryCacheKey result (Some memoryTTL) (interpretCache st)\<rparr>,
           w')
      | (None, w') \<Rightarrow>
          computeTier sv clk rateLimitResult astrolabe fortuneData topics memoryCacheKey (st, w')))"

text \<open>
  \<open>POST\<close>: the response (\<open>None\<close> if the handler never answers), the calls started and not
  awaited, the server state and the world after the request.
\<close>

definition POST ::
  "'s Services \<Rightarrow> Clock \<Rightarrow> Request \<Rightarrow> ServerState \<times> 's \<Rightarrow>
   Response option \<times> SaveRequest list \<times> ServerState \<times> 's" where
  "POST sv clk request = (\<lambda>(st, w).
     (case checkRateLimit (atRateLimit clk) (clientIP request) RATE_LIMIT_CONFIGS_interpret (limits st) of
        (rateLimitResult, limits') \<Rightarrow>
          (let st1 = st\<lparr>limits := limits'\<rparr> in
           if \<not> allowed rateLimitResult then
             (Some (createRateLimitResponse rateLimitResult), [], st1, w)
           else
             (case requestBody request of
                None \<Rightarrow> (Some (errorResponse msgInterpretFailed 500), [], st1, w)
              | Some b \<Rightarrow>
                  (case bodyAstrolabe b of
                     None \<Rightarrow> (Some (errorResponse msgMissingChart 400), [], st1, w)
                   | Some astrolabe \<Rightarrow>
                       (let memoryCacheKey = buildInterpretCacheKey astrolabe (bodyFortune b) in
                        case lru_get (atCacheGet clk) memoryCacheKey (interpretCache st1) of
                          (Some result, cache') \<Rightarrow>
                            (Some (resultResponse result Memory rateLimitResult), [],
                             st1\<lparr>interpretCache := cache'\<rparr>, w)
                        | (None, cache') \<Rightarrow>
                            persistentTier sv clk rateLimitResult astrolabe (bodyFortune b)
                              (case bodyTopics b of None \<Rightarrow> [] | Some t \<Rightarrow> t) memoryCacheKey
                              (st1\<lparr>interpretCache := cache'\<rparr>, w)))))))"

text \<open>
  The persistent tier as the route enters it on a memory miss: whether it misses, and the
  world it leaves for the third tier.
\<close>

definition storeMisses :: "'s Services \<Rightarrow> Astrolabe \<Rightarrow> FortuneData option \<Rightarrow> 's \<Rightarrow> bool" where
  "storeMisses sv astrolabe fortuneData w =
     (if isSupabaseConfigured sv then
        fst (getCachedInterpretation sv (chartId astrolabe) (getFortuneScope fortuneData)
               (buildFortuneParams fortuneData) w) = None
      else True)"

definition worldAfterStore :: "'s Services \<Rightarrow> Astrolabe \<Rightarrow> FortuneData option \<Rightarrow> 's \<Rightarrow> 's" where
  "worldAfterStore sv astrolabe fortuneData w =
     (if isSupabaseConfigured sv then
        snd (getCachedInterpretation sv (chartId astrolabe) (getFortuneScope fortuneData)
               (buildFortuneParams fortuneData) w)
      else w)"

text \<open>Whether the rate limiter admits a request, and the limiter's answer.\<close>

definition admission :: "Clock \<Rightarrow> Request \<Rightarrow> ServerState \<Rightarrow> RateLimitResult" where
  "admission clk request st =
     fst (checkRateLimit (atRateLimit clk) (clientIP request) RATE_LIMIT_CONFIGS_interpret (limits st))"

text \<open>A header of a response, by name.\<close>

definition header :: "string \<Rightarrow> Response \<Rightarrow> string option" where
  "header name r = map_of (headers r) name"

text \<open>The server state of a fresh process: no rate-limit record, an empty cache of 50 entries.\<close>

definition freshServer :: ServerState where
  "freshServer = \<lparr>limits = Map.empty, interpretCache = newLRUCache 50 (5 * 60 * 1000)\<rparr>"

text \<open>A store that never holds anything, and a parser that puts the content into every text.\<close>

definition emptyStore :: "string \<Rightarrow> string \<Rightarrow> json \<Rightarrow> 's \<Rightarrow> InterpretResult option \<times> 's" where
  "emptyStore cid sc params w = (None, w)"

definition echoParser :: "string \<Rightarrow> InterpretResult" where
  "echoParser content =
     \<lparr>life = content, siblings = content, marriage = content, children = content,
      wealth = content, health = content, travel = content, friends = content,
      career = content, property = content, fortune = content, parents = content,
      summary = content, todayAdvice = [], todayTodo = [], todayAvoid = []\<rparr>"

text \<open>
  Two deployments for concrete runs, both with an API key, the store configured and
  empty: in one every model is rate-limited, in the other the generator answers at once.
  Their world counts the calls made to the generator.
\<close>

definition countedRateLimited :: "Astrolabe \<Rightarrow> FortuneData option \<Rightarrow> string \<Rightarrow> nat \<Rightarrow> string promise \<times> nat" where
  "countedRateLimited a f m n = (Settles 100 (Inl (RateLimitError 1)), Suc n)"

definition countedAnswering :: "Astrolabe \<Rightarrow> FortuneData option \<Rightarrow> string \<Rightarrow> nat \<Rightarrow> string promise \<times> nat" where
  "countedAnswering a f m n = (Settles 100 (Inr ''reading''), Suc n)"

definition failingServices :: "nat Services" where
  "failingServices =
     \<lparr>env = \<lparr>OPENAI_API_KEY = Some ''sk-test'', OPENAI_MODEL = None\<rparr>,
      isSupabaseConfigured = True, getCachedInterpretation = emptyStore,
      generator = countedRateLimited, parseLLMResponse = echoParser, random = (\<lambda>m n. 0)\<rparr>"

definition answeringServices :: "nat Services" where
  "answeringServices =
     \<lparr>env = \<lparr>OPENAI_API_KEY = Some ''sk-test'', OPENAI_MODEL = None\<rparr>,
      isSupabaseConfigured = True, getCachedInterpretation = emptyStore,
      generator = countedAnswering, parseLLMResponse = echoParser, random = (\<lambda>m n. 0)\<rparr>"

text \<open>The request of the end-to-end scenario: chart \<open>chart1\<close>, no fortune (scope natal).\<close>

definition natalChart :: Astrolabe where
  "natalChart = \<lparr>chartId = ''chart1'', chartContent = []\<rparr>"

definition natalBody :: RequestBody where
  "natalBody = \<lparr>bodyAstrolabe = Some natalChart, bodyFortune = None, bodyTopics = None\<rparr>"

definition natalRequest :: Request where
  "natalRequest = \<lparr>clientIP = ''10.0.0.1'', requestBody = Some natalBody\<rparr>"

definition firstClock :: Clock where
  "firstClock = \<lparr>atRateLimit = 1000, atCacheGet = 1000, atCacheSet = 2000\<rparr>"

definition secondClock :: Clock where
  "secondClock = \<lparr>atRateLimit = 60000, atCacheGet = 60000, atCacheSet = 60000\<rparr>"

section \<open>Theorems\<close>

subsection \<open>The rate limiter\<close>


lemma checkRateLimit_fresh:
  "windowElapsed now (store (rateLimitKey config identifier)) \<Longrightarrow>
   checkRateLimit now identifier config store =
     (\<lparr>allowed = True, remaining = maxRequests config - 1,
       resultResetTime = now + windowMs config, retryAfter = None\<rparr>,
      store(rateLimitKey config identifier \<mapsto> \<lparr>count = 1, resetTime = now + windowMs config\<rparr>))"
  by (cases "store (rateLimitKey config identifier)")
     (simp_all add: checkRateLimit_def freshWindow_def windowElapsed_def Let_def)

lemma checkRateLimit_increment:
  "store (rateLimitKey config identifier) = Some r \<Longrightarrow> \<not> resetTime r < now \<Longrightarrow>
   count r < maxRequests config \<Longrightarrow>
   checkRateLimit now identifier config store =
     (\<lparr>allowed = True, remaining = maxRequests config - (count r + 1),
       resultResetTime = resetTime r, retryAfter = None\<rparr>,
      store(rateLimitKey config identifier \<mapsto> r\<lparr>count := count r + 1\<rparr>))"
  by (simp add: checkRateLimit_def Let_def)

lemma checkRateLimit_reject:
  "store (rateLimitKey config identifier) = Some r \<Longrightarrow> \<not> resetTime r < now \<Longrightarrow>
   maxRequests config \<le> count r \<Longrightarrow>
   checkRateLimit now identifier config store =
     (\<lparr>allowed = False, remaining = 0, resultResetTime = resetTime r,
       retryAfter = Some \<lceil>real_of_int (resetTime r - now) / 1000\<rceil>\<rparr>, store)"
  by (simp add: checkRateLimit_def Let_def)

lemma calls_in_window:
  "store (rateLimitKey config identifier) = Some r \<Longrightarrow> \<forall>t\<in>set ts. t \<le> resetTime r \<Longrightarrow>
   count r + int (length ts) \<le> maxRequests config \<Longrightarrow>
   (\<forall>x\<in>set (fst (checkRateLimitCalls ts identifier config store)). allowed x) \<and>
   length (fst (checkRateLimitCalls ts identifier config store)) = length ts \<and>
   snd (checkRateLimitCalls ts identifier config store) =
     store(rateLimitKey config identifier \<mapsto> r\<lparr>count := count r + int (length ts)\<rparr>)"
proof (induction ts arbitrary: store r)
  case Nil
  then show ?case by (simp add: fun_upd_idem)
next
  case (Cons t ts)
  let ?key = "rateLimitKey config identifier"
  let ?r' = "r\<lparr>count := count r + 1\<rparr>"
  let ?store' = "store(?key \<mapsto> ?r')"
  from Cons.prems have step:
    "checkRateLimit t identifier config store =
       (\<lparr>allowed = True, remaining = maxRequests config - (count r + 1),
         resultResetTime = resetTime r, retryAfter = None\<rparr>, ?store')"
    by (intro checkRateLimit_increment) auto
  have "?store' ?key = Some ?r'" by simp
  moreover have "\<forall>t\<in>set ts. t \<le> resetTime ?r'" using Cons.prems by simp
  moreover have "count ?r' + int (length ts) \<le> maxRequests config" using Cons.prems by simp
  ultimately have IH:
    "(\<forall>x\<in>set (fst (checkRateLimitCalls ts identifier config ?store')). allowed x) \<and>
     length (fst (checkRateLimitCalls ts identifier config ?store')) = length ts \<and>
     snd (checkRateLimitCalls ts identifier config ?store') =
       ?store'(?key \<mapsto> ?r'\<lparr>count := count ?r' + int (length ts)\<rparr>)"
    by (rule Cons.IH)
  show ?case using IH step
    by (simp add: split_beta Let_def algebra_simps)
qed

lemma count_invariant_step:
  "1 \<le> maxRequests config \<Longrightarrow> countWithin config (store (rateLimitKey config identifier)) \<Longrightarrow>
   countWithin config (snd (checkRateLimit now identifier config store) (rateLimitKey config identifier))"
  by (auto simp add: countWithin_def checkRateLimit_def freshWindow_def Let_def split: option.splits)

lemma count_invariant_calls:
  "1 \<le> maxRequests config \<Longrightarrow> countWithin config (store (rateLimitKey config identifier)) \<Longrightarrow>
   countWithin config (snd (checkRateLimitCalls ts identifier config store) (rateLimitKey config identifier))"
proof (induction ts arbitrary: store)
  case Nil
  then show ?case by simp
next
  case (Cons t ts)
  have "countWithin config (snd (checkRateLimit t identifier config store) (rateLimitKey config identifier))"
    using Cons.prems by (rule count_invariant_step)
  then have "countWithin config
      (snd (checkRateLimitCalls ts identifier config (snd (checkRateLimit t identifier config store)))
        (rateLimitKey config identifier))"
    using Cons.prems(1) by (intro Cons.IH)
  then show ?case
    by (simp add: split_beta)
qed

text \<open>
  Claim C2, for a policy with \<open>maxRequests = N \<ge> 1\<close>. The first call \<open>t0\<close> finds no live
  window; \<open>ts\<close> are the next \<open>N - 1\<close> calls, \<open>t\<close> is the call after them, all no later than
  the reset time \<open>t0 + windowMs\<close>; \<open>t'\<close> is a call after the reset time. Then: the first
  \<open>N\<close> calls are all allowed and leave the count at \<open>N\<close>; the \<open>(N+1)\<close>th call is rejected
  with \<open>remaining = 0\<close> and \<open>retryAfter = ceil((resetTime - now) / 1000)\<close>, and leaves the
  store as it was (rejecting, not clamping); a call after the reset time is allowed and
  replaces the record by a fresh one of count 1; and whatever calls follow the first
  one, at whatever times, the stored count never exceeds \<open>N\<close>.
\<close>

theorem rate_window_correctness:
  assumes N: "1 \<le> maxRequests config"
    and fresh: "windowElapsed t0 (store (rateLimitKey config identifier))"
    and len: "int (length ts) = maxRequests config - 1"
    and within: "\<forall>u\<in>set ts. u \<le> t0 + windowMs config"
    and t: "t \<le> t0 + windowMs config"
    and t': "t0 + windowMs config < t'"
  shows
    "(let key = rateLimitKey config identifier;
          firstN = checkRateLimitCalls (t0 # ts) identifier config store;
          st = snd firstN
      in int (length (fst firstN)) = maxRequests config \<and>
         list_all allowed (fst firstN) \<and>
         st key = Some \<lparr>count = maxRequests config, resetTime = t0 + windowMs config\<rparr> \<and>
         checkRateLimit t identifier config st =
           (\<lparr>allowed = False, remaining = 0, resultResetTime = t0 + windowMs config,
             retryAfter = Some \<lceil>real_of_int (t0 + windowMs config - t) / 1000\<rceil>\<rparr>, st) \<and>
         checkRateLimit t' identifier config st =
           (\<lparr>allowed = True, remaining = maxRequests config - 1,
             resultResetTime = t' + windowMs config, retryAfter = None\<rparr>,
            st(key \<mapsto> \<lparr>count = 1, resetTime = t' + windowMs config\<rparr>)) \<and>
         (\<forall>us. countWithin config (snd (checkRateLimitCalls (t0 # us) identifier config store) key)))"
proof -
  let ?key = "rateLimitKey config identifier"
  let ?r1 = "\<lparr>count = 1, resetTime = t0 + windowMs config\<rparr>"
  let ?s1 = "store(?key \<mapsto> ?r1)"
  let ?firstN = "checkRateLimitCalls (t0 # ts) identifier config store"
  let ?rN = "\<lparr>count = maxRequests config, resetTime = t0 + windowMs config\<rparr>"
  have first: "checkRateLimit t0 identifier config store =
      (\<lparr>allowed = True, remaining = maxRequests config - 1,
        resultResetTime = t0 + windowMs config, retryAfter = None\<rparr>, ?s1)"
    using fresh by (rule checkRateLimit_fresh)
  have s1: "?s1 ?key = Some ?r1" by simp
  have rest:
    "(\<forall>x\<in>set (fst (checkRateLimitCalls ts identifier config ?s1)). allowed x) \<and>
     length (fst (checkRateLimitCalls ts identifier config ?s1)) = length ts \<and>
     snd (checkRateLimitCalls ts identifier config ?s1) =
       ?s1(?key \<mapsto> ?r1\<lparr>count := count ?r1 + int (length ts)\<rparr>)"
    using s1 within len by (intro calls_in_window) simp_all
  have fstN: "fst ?firstN =
      \<lparr>allowed = True, remaining = maxRequests config - 1,
        resultResetTime = t0 + windowMs config, retryAfter = None\<rparr>
      # fst (checkRateLimitCalls ts identifier config ?s1)"
    using first by (simp add: split_beta)
  have sndN: "snd ?firstN = store(?key \<mapsto> ?rN)"
    using first rest len by (simp add: split_beta)
  have c1: "int (length (fst ?firstN)) = maxRequests config"
    using fstN rest len by simp
  have c2: "list_all allowed (fst ?firstN)"
    using fstN rest by (simp add: list_all_iff)
  have c3: "snd ?firstN ?key = Some ?rN"
    using sndN by simp
  have c4: "checkRateLimit t identifier config (snd ?firstN) =
      (\<lparr>allowed = False, remaining = 0, resultResetTime = t0 + windowMs config,
        retryAfter = Some \<lceil>real_of_int (t0 + windowMs config - t) / 1000\<rceil>\<rparr>, snd ?firstN)"
    using checkRateLimit_reject[of "snd ?firstN" config "identifier" "?rN" t] c3 t by simp
  have "windowElapsed t' (snd ?firstN ?key)"
    using c3 t' by (simp add: windowElapsed_def)
  then have c5: "checkRateLimit t' identifier config (snd ?firstN) =
      (\<lparr>allowed = True, remaining = maxRequests config - 1,
        resultResetTime = t' + windowMs config, retryAfter = None\<rparr>,
       (snd ?firstN)(?key \<mapsto> \<lparr>count = 1, resetTime = t' + windowMs config\<rparr>))"
    by (rule checkRateLimit_fresh)
  have c6: "countWithin config (snd (checkRateLimitCalls (t0 # us) identifier config store) ?key)" for us
  proof -
    have "countWithin config (?s1 ?key)"
      using N by (simp add: countWithin_def)
    then have "countWithin config (snd (checkRateLimitCalls us identifier config ?s1) ?key)"
      using N count_invariant_calls by blast
    then show ?thesis using first by (simp add: split_beta)
  qed
  show ?thesis
    unfolding Let_def using c1 c2 c3 c4 c5 c6 by blast
qed

text \<open>
  The theorem at a concrete run: two requests per second, calls at 0 and 500 are allowed,
  the call at 700 is rejected with one second to wait, the call at 1001 opens a new window.
\<close>

theorem rate_window_correctness_witness:
  "list_all allowed (fst (checkRateLimitCalls [0, 500] ''10.0.0.1'' demoPolicy Map.empty)) \<and>
   fst (checkRateLimit 700 ''10.0.0.1'' demoPolicy
          (snd (checkRateLimitCalls [0, 500] ''10.0.0.1'' demoPolicy Map.empty))) =
     \<lparr>allowed = False, remaining = 0, resultResetTime = 1000, retryAfter = Some 1\<rparr> \<and>
   fst (checkRateLimit 1001 ''10.0.0.1'' demoPolicy
          (snd (checkRateLimitCalls [0, 500] ''10.0.0.1'' demoPolicy Map.empty))) =
     \<lparr>allowed = True, remaining = 1, resultResetTime = 2001, retryAfter = None\<rparr>"
  using rate_window_correctness[of demoPolicy 0 Map.empty "''10.0.0.1''" "[500]" 700 1001]
  by (simp add: demoPolicy_def windowElapsed_def Let_def)

text \<open>
  Claim C2 as written quantifies over every policy. For \<open>maxRequests = 0\<close> it fails: the
  branch that opens a window never looks at \<open>maxRequests\<close>, so the first call, which is
  the \<open>(N+1)\<close>th, is allowed and stores the count 1, above \<open>N = 0\<close>.
\<close>

theorem rate_window_zero_budget_counterexample:
  "allowed (fst (checkRateLimit 0 ''10.0.0.1''
      \<lparr>windowMs = 1000, maxRequests = 0, keyPrefix = Some ''interpret''\<rparr> Map.empty)) \<and>
   map_option count (snd (checkRateLimit 0 ''10.0.0.1''
      \<lparr>windowMs = 1000, maxRequests = 0, keyPrefix = Some ''interpret''\<rparr> Map.empty)
        ''interpret:10.0.0.1'') = Some 1"
  by (simp add: checkRateLimit_def freshWindow_def rateLimitKey_def Let_def)

subsection \<open>The cache: expiry\<close>

lemma update_fresh_append:
  "k \<notin> fst ` set al \<Longrightarrow> AList.update k v al = al @ [(k, v)]"
  by (induction al) auto

lemma delete_notin: "k \<notin> fst ` set (AList.delete k al)"
  by (simp add: AList.delete_eq image_iff) 

lemma map_of_delete_self: "map_of (AList.delete k al) k = None"
  by (simp add: AList.delete_conv')

lemma map_of_filter_distinct:
  "distinct (map fst al) \<Longrightarrow>
   map_of (filter P al) k =
     (case map_of al k of None \<Rightarrow> None | Some e \<Rightarrow> if P (k, e) then Some e else None)"
proof (induction al)
  case Nil
  then show ?case by simp
next
  case (Cons p al)
  obtain k' e' where p: "p = (k', e')" by (cases p)
  show ?case
  proof (cases "k' = k")
    case True
    with Cons.prems p have "k \<notin> fst ` set al" by auto
    then have "map_of al k = None" by (simp add: map_of_eq_None_iff)
    moreover have "map_of (filter P al) k = None"
      using \<open>k \<notin> fst ` set al\<close> by (auto simp add: map_of_eq_None_iff)
    ultimately show ?thesis using p True by simp
  next
    case False
    then show ?thesis using Cons p by simp
  qed
qed

lemma lru_get_expired:
  "map_of (cache c) key = Some entry \<Longrightarrow> expiresAt entry < now \<Longrightarrow>
   lru_get now key c = (None, c\<lparr>cache := AList.delete key (cache c)\<rparr>)"
  by (simp add: lru_get_def)

lemma lru_has_expired:
  "map_of (cache c) key = Some entry \<Longrightarrow> expiresAt entry < now \<Longrightarrow>
   lru_has now key c = (False, c\<lparr>cache := AList.delete key (cache c)\<rparr>)"
  by (simp add: lru_has_def)

lemma lru_get_live:
  "map_of (cache c) key = Some entry \<Longrightarrow> now \<le> expiresAt entry \<Longrightarrow>
   lru_get now key c =
     (Some (entryValue entry), c\<lparr>cache := AList.delete key (cache c) @ [(key, entry)]\<rparr>)"
  by (simp add: lru_get_def update_fresh_append delete_notin)

lemma lru_has_live:
  "map_of (cache c) key = Some entry \<Longrightarrow> now \<le> expiresAt entry \<Longrightarrow> lru_has now key c = (True, c)"
  by (simp add: lru_has_def)

lemma lru_get_absent: "map_of (cache c) key = None \<Longrightarrow> lru_get now key c = (None, c)"
  by (simp add: lru_get_def)

lemma cleanup_lookup:
  "distinct (map fst (cache c)) \<Longrightarrow>
   map_of (cache (snd (lru_cleanup s c))) key =
     (case map_of (cache c) key of None \<Rightarrow> None
      | Some e \<Rightarrow> if expiresAt e < s then None else Some e)"
  by (simp add: lru_cleanup_def map_of_filter_distinct split: option.splits)

lemma sweep_irrelevant:
  assumes "distinct (map fst (cache c))" and "s \<le> now"
  shows "fst (lru_get now key (snd (lru_cleanup s c))) = fst (lru_get now key c) \<and>
         fst (lru_has now key (snd (lru_cleanup s c))) = fst (lru_has now key c)"
  using assms cleanup_lookup[OF assms(1), of s key]
  by (auto simp add: lru_get_def lru_has_def split: option.splits)

text \<open>
  Claim C4, with the boundary the code has. An entry stored under \<open>key\<close> is expired when
  \<open>expiresAt < now\<close> (the code tests \<open>Date.now() > entry.expiresAt\<close>): then \<open>get\<close> deletes
  it and returns absent, and \<open>has\<close> deletes it and returns false. While
  \<open>now \<le> expiresAt\<close>, \<open>get\<close> returns the value and \<open>has\<close> returns true. Neither answer
  depends on the sweep: a \<open>cleanup\<close> run at any earlier time \<open>s \<le> now\<close> changes neither.
\<close>

theorem ttl_visibility:
  assumes "map_of (cache c) key = Some entry"
  shows
    "(expiresAt entry < now \<longrightarrow>
        lru_get now key c = (None, c\<lparr>cache := AList.delete key (cache c)\<rparr>) \<and>
        lru_has now key c = (False, c\<lparr>cache := AList.delete key (cache c)\<rparr>) \<and>
        map_of (AList.delete key (cache c)) key = None) \<and>
     (now \<le> expiresAt entry \<longrightarrow>
        fst (lru_get now key c) = Some (entryValue entry) \<and> fst (lru_has now key c)) \<and>
     (\<forall>s. distinct (map fst (cache c)) \<and> s \<le> now \<longrightarrow>
        fst (lru_get now key (snd (lru_cleanup s c))) = fst (lru_get now key c) \<and>
        fst (lru_has now key (snd (lru_cleanup s c))) = fst (lru_has now key c))"
  using assms
  by (auto simp add: lru_get_expired lru_has_expired lru_get_live lru_has_live
        map_of_delete_self sweep_irrelevant)

lemma demoCache_eval:
  "demoCache = \<lparr>cache = [(''k'', \<lparr>entryValue = ''v'', expiresAt = 100\<rparr>)], maxSize = 3, defaultTTL = 1000\<rparr>"
  by (simp add: demoCache_def lru_set_def newLRUCache_def ttlOrDefault_def)

text \<open>
  The theorem on a cache holding one entry that expires at 100: absent at 101 (with or
  without a sweep at 50), present at 99.
\<close>

theorem ttl_visibility_witness:
  "lru_get 101 ''k'' demoCache = (None, demoCache\<lparr>cache := []\<rparr>) \<and>
   fst (lru_has 101 ''k'' demoCache) = False \<and>
   fst (lru_get 99 ''k'' demoCache) = Some ''v'' \<and>
   fst (lru_get 101 ''k'' (snd (lru_cleanup 50 demoCache))) = None"
  using ttl_visibility[of demoCache "''k''" "\<lparr>entryValue = ''v'', expiresAt = 100\<rparr>" 101]
    ttl_visibility[of demoCache "''k''" "\<lparr>entryValue = ''v'', expiresAt = 100\<rparr>" 99]
  by (simp add: demoCache_eval)

text \<open>
  Claim C4 as written ("visible only while \<open>now < expiresAt\<close>") fails at
  \<open>now = expiresAt\<close>: there \<open>now < expiresAt\<close> does not hold, yet \<open>get\<close> returns the value
  and \<open>has\<close> returns true.
\<close>

theorem ttl_boundary_counterexample:
  "map_of (cache demoCache) ''k'' = Some \<lparr>entryValue = ''v'', expiresAt = 100\<rparr> \<and>
   \<not> (100 < expiresAt \<lparr>entryValue = ''v'', expiresAt = 100\<rparr>) \<and>
   fst (lru_get 100 ''k'' demoCache) = Some ''v'' \<and>
   fst (lru_has 100 ''k'' demoCache) = True"
  by (simp add: demoCache_eval lru_get_def lru_has_def)

subsection \<open>The cache: recency and eviction\<close>

lemma lru_get_keeps_distinct:
  "distinct (map fst (cache c)) \<Longrightarrow> distinct (map fst (cache (snd (lru_get now key c))))"
  by (auto simp add: lru_get_def distinct_update distinct_delete split: option.splits)

lemma lru_set_keeps_distinct:
  "distinct (map fst (cache c)) \<Longrightarrow> distinct (map fst (cache (lru_set now key v ttl c)))"
  by (auto simp add: lru_set_def Let_def distinct_update distinct_delete split: list.splits)

lemma lru_cleanup_keeps_distinct:
  "distinct (map fst (cache c)) \<Longrightarrow> distinct (map fst (cache (snd (lru_cleanup now c))))"
  by (simp add: lru_cleanup_def distinct_map_filter)

lemma delete_absent: "k \<notin> fst ` set al \<Longrightarrow> AList.delete k al = al"
  by (induction al) auto

lemma keys_delete: "map fst (AList.delete k al) = filter (\<lambda>x. x \<noteq> k) (map fst al)"
  by (induction al) auto

lemma lru_set_fields [simp]:
  "maxSize (lru_set now key v ttl c) = maxSize c"
  "defaultTTL (lru_set now key v ttl c) = defaultTTL c"
  by (simp_all add: lru_set_def Let_def)

lemma lru_get_fields [simp]:
  "maxSize (snd (lru_get now key c)) = maxSize c"
  "defaultTTL (snd (lru_get now key c)) = defaultTTL c"
  by (simp_all add: lru_get_def split: option.splits)

text \<open>A new key at capacity, oldest key not empty: exactly the oldest entry goes.\<close>

lemma lru_set_evicts_oldest:
  assumes "cache c = (k1, e1) # rest" and "distinct (map fst (cache c))"
    and "maxSize c \<le> int (length (cache c))" and "k1 \<noteq> []"
    and "key \<notin> fst ` set (cache c)"
  shows "cache (lru_set now key v ttl c) =
           rest @ [(key, \<lparr>entryValue = v, expiresAt = now + ttlOrDefault ttl c\<rparr>)]"
proof -
  have none: "map_of (cache c) key = None"
    using assms(5) by (simp add: map_of_eq_None_iff)
  have "k1 \<notin> fst ` set rest" using assms(1,2) by auto
  then have del: "AList.delete k1 ((k1, e1) # rest) = rest"
    by (simp add: delete_absent)
  have "key \<notin> fst ` set rest" using assms(1,5) by auto
  then show ?thesis
    using assms(1,3,4) none del by (simp add: lru_set_def Let_def update_fresh_append)
qed

lemma lru_set_below_capacity:
  assumes "int (length (cache c)) < maxSize c" and "key \<notin> fst ` set (cache c)"
  shows "cache (lru_set now key v ttl c) =
           cache c @ [(key, \<lparr>entryValue = v, expiresAt = now + ttlOrDefault ttl c\<rparr>)]"
proof -
  have none: "map_of (cache c) key = None"
    using assms(2) by (simp add: map_of_eq_None_iff)
  show ?thesis using assms none by (simp add: lru_set_def Let_def update_fresh_append)
qed

lemma lru_get_refreshes:
  assumes "map_of (cache c) key = Some entry" and "now \<le> expiresAt entry"
  shows "lru_keys (snd (lru_get now key c)) = filter (\<lambda>k. k \<noteq> key) (lru_keys c) @ [key]"
  using assms by (simp add: lru_get_live lru_keys_def keys_delete)


text \<open>
  The eviction scenario of claim C5 for keys that are not the empty string: capacity 3,
  four distinct keys. The fourth insert evicts exactly the oldest key \<open>k1\<close>; after a
  successful \<open>get\<close> of \<open>k1\<close>, \<open>k1\<close> is the most recent and the fourth insert evicts \<open>k2\<close>.
\<close>

theorem lru_eviction_nonempty_keys:
  assumes "distinct [k1, k2, k3, k4]" and "k1 \<noteq> []" and "k2 \<noteq> []"
  shows
    "(let c3 = lru_set t3 k3 v3 ttl3 (lru_set t2 k2 v2 ttl2 (lru_set t1 k1 v1 ttl1 (newLRUCache 3 d)))
      in lru_keys c3 = [k1, k2, k3] \<and>
         lru_keys (lru_set t4 k4 v4 ttl4 c3) = [k2, k3, k4] \<and>
         (fst (lru_get t k1 c3) \<noteq> None \<longrightarrow>
            fst (lru_get t k1 c3) = Some v1 \<and>
            lru_keys (snd (lru_get t k1 c3)) = [k2, k3, k1] \<and>
            lru_keys (lru_set t4 k4 v4 ttl4 (snd (lru_get t k1 c3))) = [k3, k1, k4]))"
proof -
  let ?c0 = "newLRUCache 3 d :: 'a LRUCache"
  let ?c1 = "lru_set t1 k1 v1 ttl1 ?c0"
  let ?c2 = "lru_set t2 k2 v2 ttl2 ?c1"
  let ?c3 = "lru_set t3 k3 v3 ttl3 ?c2"
  let ?e1 = "\<lparr>entryValue = v1, expiresAt = t1 + ttlOrDefault ttl1 ?c0\<rparr>"
  let ?e2 = "\<lparr>entryValue = v2, expiresAt = t2 + ttlOrDefault ttl2 ?c1\<rparr>"
  let ?e3 = "\<lparr>entryValue = v3, expiresAt = t3 + ttlOrDefault ttl3 ?c2\<rparr>"
  have neq: "k1 \<noteq> k2" "k2 \<noteq> k1" "k1 \<noteq> k3" "k3 \<noteq> k1" "k1 \<noteq> k4" "k4 \<noteq> k1"
      "k2 \<noteq> k3" "k3 \<noteq> k2" "k2 \<noteq> k4" "k4 \<noteq> k2" "k3 \<noteq> k4" "k4 \<noteq> k3"
    using assms(1) by auto
  have c0: "cache ?c0 = []" "maxSize ?c0 = 3"
    by (simp_all add: newLRUCache_def)
  have c1: "cache ?c1 = [(k1, ?e1)]"
    using lru_set_below_capacity[of ?c0 k1 t1 v1 ttl1] c0 by simp
  have c2: "cache ?c2 = [(k1, ?e1), (k2, ?e2)]"
    using lru_set_below_capacity[of ?c1 k2 t2 v2 ttl2] c0 c1 neq by simp
  have c3: "cache ?c3 = [(k1, ?e1), (k2, ?e2), (k3, ?e3)]"
    using lru_set_below_capacity[of ?c2 k3 t3 v3 ttl3] c0 c1 c2 neq by simp
  have keys3: "lru_keys ?c3 = [k1, k2, k3]"
    using c3 by (simp add: lru_keys_def)
  have "cache (lru_set t4 k4 v4 ttl4 ?c3) =
      [(k2, ?e2), (k3, ?e3)] @ [(k4, \<lparr>entryValue = v4, expiresAt = t4 + ttlOrDefault ttl4 ?c3\<rparr>)]"
    using c3 c0 neq assms(2) by (intro lru_set_evicts_oldest[where ?k1.0 = k1 and ?e1.0 = ?e1]) simp_all
  then have keys4: "lru_keys (lru_set t4 k4 v4 ttl4 ?c3) = [k2, k3, k4]"
    by (simp add: lru_keys_def)
  have lookup: "map_of (cache ?c3) k1 = Some ?e1"
    using c3 by simp
  have after_get: "fst (lru_get t k1 ?c3) = Some v1 \<and>
      lru_keys (snd (lru_get t k1 ?c3)) = [k2, k3, k1] \<and>
      lru_keys (lru_set t4 k4 v4 ttl4 (snd (lru_get t k1 ?c3))) = [k3, k1, k4]"
    if hit: "fst (lru_get t k1 ?c3) \<noteq> None"
  proof -
    have live: "t \<le> expiresAt ?e1"
      using hit lookup lru_get_expired[OF lookup, of t] by (cases "expiresAt ?e1 < t") auto
    let ?g = "snd (lru_get t k1 ?c3)"
    have g: "lru_get t k1 ?c3 = (Some v1, ?c3\<lparr>cache := [(k2, ?e2), (k3, ?e3), (k1, ?e1)]\<rparr>)"
      using lru_get_live[OF lookup live] c3 neq by simp
    then have cg: "cache ?g = [(k2, ?e2), (k3, ?e3), (k1, ?e1)]" by simp
    have "cache (lru_set t4 k4 v4 ttl4 ?g) =
        [(k3, ?e3), (k1, ?e1)] @ [(k4, \<lparr>entryValue = v4, expiresAt = t4 + ttlOrDefault ttl4 ?g\<rparr>)]"
      using cg c0 neq assms(3) by (intro lru_set_evicts_oldest[where ?k1.0 = k2 and ?e1.0 = ?e2]) simp_all
    then show ?thesis using g cg by (simp add: lru_keys_def)
  qed
  show ?thesis
    unfolding Let_def using keys3 keys4 after_get by blast
qed

text \<open>The scenario of the test suite: \<open>key1\<close> is evicted.\<close>

theorem lru_eviction_nonempty_keys_witness:
  "lru_keys (lru_set 3 ''key4'' ''value4'' None
     (lru_set 2 ''key3'' ''value3'' None (lru_set 1 ''key2'' ''value2'' None
       (lru_set 0 ''key1'' ''value1'' None (newLRUCache 3 1000))))) = [''key2'', ''key3'', ''key4'']"
  using lru_eviction_nonempty_keys[of "''key1''" "''key2''" "''key3''" "''key4''"
      2 "''value3''" None 1 "''value2''" None 0 "''value1''" None 1000 3 "''value4''" None 0]
  by (simp add: Let_def)

text \<open>
  Claim C5 at an input where the code misses it: the oldest key is the empty string.
  The guard \<open>if (firstKey)\<close> is false for it, nothing is evicted, and the cache of
  capacity 3 holds four entries.
\<close>

theorem lru_empty_key_not_evicted:
  "lru_keys (lru_set 3 ''d'' ''value4'' None
     (lru_set 2 ''c'' ''value3'' None (lru_set 1 ''b'' ''value2'' None
       (lru_set 0 [] ''value1'' None (newLRUCache 3 1000))))) = [[], ''b'', ''c'', ''d'']"
  by (simp add: lru_keys_def lru_set_def newLRUCache_def Let_def ttlOrDefault_def)

subsection \<open>The cache key builder\<close>

lemma sorted_wrt_remdups: "sorted_wrt P xs \<Longrightarrow> sorted_wrt P (remdups xs)"
  by (induction xs) auto

lemma propertyList_sort: "propertyList (sort ks) = sorted_list_of_set (set ks)"
proof -
  have "sorted_wrt (\<lambda>a b. b \<le> a) (rev (sort ks))"
    by (simp add: sorted_wrt_rev)
  then have "sorted_wrt (\<lambda>a b. b \<le> a) (remdups (rev (sort ks)))"
    by (rule sorted_wrt_remdups)
  then have "sorted (propertyList (sort ks))"
    by (simp add: propertyList_def sorted_wrt_rev)
  moreover have "distinct (propertyList (sort ks))"
    by (simp add: propertyList_def)
  moreover have "set (propertyList (sort ks)) = set ks"
    by (simp add: propertyList_def)
  ultimately show ?thesis
    by (metis finite_set sorted_list_of_set.idem_if_sorted_distinct)
qed

lemma map_of_map_snd:
  "map_of (map (\<lambda>p. (fst p, f (snd p))) ps) k = map_option f (map_of ps k)"
  by (induction ps) auto

lemma map_filter_cong_set:
  "(\<And>x. x \<in> set xs \<Longrightarrow> f x = g x) \<Longrightarrow> List.map_filter f xs = List.map_filter g xs"
  by (induction xs) (auto simp add: List.map_filter_simps split: option.splits)

lemma serialize_objects_agree:
  assumes "\<And>k. k \<in> set K \<Longrightarrow> map_of ps k = map_of qs k"
  shows "serializeProperty K (JObj ps) = serializeProperty K (JObj qs)"
proof -
  have "List.map_filter
          (\<lambda>k. case map_of (map (\<lambda>p. (fst p, serializeProperty K (snd p))) ps) k of
                 Some (Some t) \<Rightarrow> Some (quoteJSONString k @ '':'' @ t) | _ \<Rightarrow> None) K =
        List.map_filter
          (\<lambda>k. case map_of (map (\<lambda>p. (fst p, serializeProperty K (snd p))) qs) k of
                 Some (Some t) \<Rightarrow> Some (quoteJSONString k @ '':'' @ t) | _ \<Rightarrow> None) K"
    by (rule map_filter_cong_set) (simp add: map_of_map_snd assms)
  then show ?thesis by simp
qed

lemma cacheKeyPart_sameProperties:
  assumes "sameProperties a b"
  shows "cacheKeyPart a = cacheKeyPart b"
proof (cases "\<exists>ps qs. a = JObj ps \<and> b = JObj qs")
  case True
  then obtain ps qs where ab: "a = JObj ps" "b = JObj qs" by blast
  from assms ab have keys: "set (map fst ps) = set (map fst qs)"
    and vals: "\<And>k. k \<in> set (map fst ps) \<Longrightarrow> map_of ps k = map_of qs k"
    by (force simp add: list_all_iff)+
  have K: "propertyList (sort (map fst ps)) = propertyList (sort (map fst qs))"
    using keys by (simp only: propertyList_sort)
  have "set (propertyList (sort (map fst qs))) = set (map fst ps)"
    using keys by (simp add: propertyList_sort)
  then have "serializeProperty (propertyList (sort (map fst qs))) (JObj ps) =
             serializeProperty (propertyList (sort (map fst qs))) (JObj qs)"
    using vals by (intro serialize_objects_agree) simp
  then show ?thesis
    using ab K by (simp add: cacheKeyPart_def JSON_stringify_def)
next
  case False
  then have "a = b" using assms by (cases a; cases b) auto
  then show ?thesis by simp
qed

text \<open>
  Claim C6. \<open>generateCacheKey\<close> is a function of its arguments alone, and it does not see
  the insertion order of an object's properties: if the two argument lists agree
  position by position, up to the order in which each object argument lists its
  properties, the two keys are the same string, for every prefix.
\<close>

theorem cache_key_order_independent:
  assumes "list_all2 sameProperties args args'"
  shows "generateCacheKey pfx args = generateCacheKey pfx args'"
proof -
  have "map cacheKeyPart args = map cacheKeyPart args'"
    using assms by (induction rule: list_all2_induct) (simp_all add: cacheKeyPart_sameProperties)
  then show ?thesis by (simp add: generateCacheKey_def)
qed

text \<open>
  The instance the claim names: \<open>{scope: "year", year: 2024}\<close> against
  \<open>{year: 2024, scope: "year"}\<close> under \<open>interpret\<close> and \<open>chart1\<close>.
\<close>

theorem cache_key_order_independent_witness:
  "generateCacheKey ''interpret''
     [JStr ''chart1'', JObj [(''scope'', JStr ''year''), (''year'', JNum 2024)]] =
   generateCacheKey ''interpret''
     [JStr ''chart1'', JObj [(''year'', JNum 2024), (''scope'', JStr ''year'')]]"
  using cache_key_order_independent[of
      "[JStr ''chart1'', JObj [(''scope'', JStr ''year''), (''year'', JNum 2024)]]"
      "[JStr ''chart1'', JObj [(''year'', JNum 2024), (''scope'', JStr ''year'')]]" "''interpret''"]
  by (simp add: insert_commute)

text \<open>The key itself: \<open>interpret:chart1:{"scope":"year","year":2024}\<close>.\<close>

lemma cache_key_example_value:
  "generateCacheKey ''interpret''
     [JStr ''chart1'', JObj [(''year'', JNum 2024), (''scope'', JStr ''year'')]] =
   ''interpret:chart1:{'' @ quoteJSONString ''scope'' @ '':'' @ quoteJSONString ''year'' @ '','' @
     quoteJSONString ''year'' @ '':2024}''"
  by (simp add: generateCacheKey_def cacheKeyPart_def JSON_stringify_def propertyList_def
        List.map_filter_def showInt_def showNat.simps digitChar_def)

subsection \<open>The retry executor\<close>

lemma timeout_error_not_retryable: "\<not> isRetryableError (OtherError msgRequestTimeout)"
  by simp

lemma timesOut_outcome:
  "timesOut config p \<Longrightarrow> attemptOutcome config p = Thrown (OtherError msgRequestTimeout)"
  by (cases p) (auto simp add: timesOut_def attemptOutcome_def split: option.splits)

lemma withRetryLoop_returned:
  "int attempt \<le> maxRetries config \<Longrightarrow> attemptOutcome config (fst (fn s)) = Returned v \<Longrightarrow>
   withRetryLoop fn config rnd attempt lastError slept s = (Returned v, slept, snd (fn s))"
  by (subst withRetryLoop.simps) (simp add: split_beta)

lemma withRetryLoop_hung:
  "int attempt \<le> maxRetries config \<Longrightarrow> attemptOutcome config (fst (fn s)) = Hung \<Longrightarrow>
   withRetryLoop fn config rnd attempt lastError slept s = (Hung, slept, snd (fn s))"
  by (subst withRetryLoop.simps) (simp add: split_beta)

lemma withRetryLoop_fatal:
  "int attempt \<le> maxRetries config \<Longrightarrow> attemptOutcome config (fst (fn s)) = Thrown e \<Longrightarrow>
   \<not> isRetryableError e \<Longrightarrow>
   withRetryLoop fn config rnd attempt lastError slept s = (Thrown e, slept, snd (fn s))"
  by (subst withRetryLoop.simps) (simp add: split_beta)

lemma withRetryLoop_last:
  "int attempt = maxRetries config \<Longrightarrow>
   withRetryLoop fn config rnd attempt lastError slept s =
     (attemptOutcome config (fst (fn s)), slept, snd (fn s))"
  by (subst withRetryLoop.simps) (simp add: split_beta split: outcome.splits)

lemma withRetryLoop_retry:
  "int attempt < maxRetries config \<Longrightarrow> attemptOutcome config (fst (fn s)) = Thrown e \<Longrightarrow>
   isRetryableError e \<Longrightarrow>
   withRetryLoop fn config rnd attempt lastError slept s =
     withRetryLoop fn config rnd (Suc attempt) (Some e)
       (slept @ [calculateBackoff attempt config (rnd attempt) (retryAfterOf e)]) (snd (fn s))"
  by (subst withRetryLoop.simps) (simp add: split_beta)

lemma counting_fst [simp]: "fst (counting fn (n, s)) = fst (fn s)"
  by (simp add: counting_def split_beta)

lemma counting_snd [simp]: "snd (counting fn (n, s)) = (Suc n, snd (fn s))"
  by (simp add: counting_def split_beta)

text \<open>
  Claim C1, as the code has it. An attempt that times out fails with the plain
  \<open>Error\<close> of the timer, which \<open>isRetryableError\<close> does not classify as retryable. So at
  every attempt index the loop can reach, also with retry budget remaining, the timeout
  error is rethrown at once: the result is that error, no delay is slept, and the
  operation has been invoked exactly once more (the counter goes from \<open>n\<close> to \<open>Suc n\<close>).
\<close>

theorem timeout_rethrown_at_once:
  assumes "timesOut config (fst (fn s))" and "int attempt \<le> maxRetries config"
  shows "\<not> isRetryableError (OtherError msgRequestTimeout) \<and>
         withRetryLoop fn config rnd attempt lastError slept s =
           (Thrown (OtherError msgRequestTimeout), slept, snd (fn s)) \<and>
         withRetryLoop (counting fn) config rnd attempt lastError slept (n, s) =
           (Thrown (OtherError msgRequestTimeout), slept, (Suc n, snd (fn s)))"
proof -
  have a: "attemptOutcome config (fst (fn s)) = Thrown (OtherError msgRequestTimeout)"
    using assms(1) by (rule timesOut_outcome)
  have b: "attemptOutcome config (fst (counting fn (n, s))) = Thrown (OtherError msgRequestTimeout)"
    using a by simp
  show ?thesis
    using assms(2) a b timeout_error_not_retryable
      withRetryLoop_fatal[of attempt config fn s "OtherError msgRequestTimeout" rnd lastError slept]
      withRetryLoop_fatal[of attempt config "counting fn" "(n, s)" "OtherError msgRequestTimeout"
        rnd lastError slept]
    by simp
qed

text \<open>
  The theorem at attempt 1 of 3 under the default configuration, for an operation that
  never settles: one more invocation, then the timeout error.
\<close>

theorem timeout_rethrown_at_once_witness:
  "withRetryLoop (counting neverSettles) DEFAULT_RETRY_CONFIG (\<lambda>_. 0) 1 None [] (1, 1) =
     (Thrown (OtherError msgRequestTimeout), [], (2, 2))"
  using timeout_rethrown_at_once[of DEFAULT_RETRY_CONFIG neverSettles 1 1 "\<lambda>_. 0" None "[]" 1]
  by (simp add: timesOut_def DEFAULT_RETRY_CONFIG_def neverSettles_def)

text \<open>
  Claim C1 as written says a timed-out attempt with budget remaining is followed by a
  further attempt. Under the default configuration (three retries, a timeout of 30
  seconds) an operation that never settles times out at attempt 0, and \<open>withRetry\<close>
  throws the timeout error after that single invocation.
\<close>

theorem timeout_retry_counterexample:
  "timesOut (fullConfig emptyPartialConfig) (fst (neverSettles 0)) \<and>
   (0::int) < maxRetries (fullConfig emptyPartialConfig) \<and>
   withRetry neverSettles emptyPartialConfig (\<lambda>_. 0) 0 =
     (Thrown (OtherError msgRequestTimeout), [], 1) \<and>
   invocations neverSettles emptyPartialConfig (\<lambda>_. 0) 0 = 1"
  by (simp add: withRetry_def invocations_def withRetryLoop.simps fullConfig_def
        emptyPartialConfig_def DEFAULT_RETRY_CONFIG_def neverSettles_def timesOut_def
        attemptOutcome_def counting_def)

lemma fullConfig_merge:
  "maxRetries (fullConfig config) = (case maxRetriesOpt config of None \<Rightarrow> 3 | Some m \<Rightarrow> m)"
  "timeoutMs (fullConfig config) = Some (case timeoutMsOpt config of None \<Rightarrow> 30000 | Some t \<Rightarrow> t)"
  by (simp_all add: fullConfig_def DEFAULT_RETRY_CONFIG_def split: option.splits)

text \<open>
  Claim C8, on the configuration the caller passes. When the caller passes
  \<open>maxRetries = 0\<close>, the operation is invoked exactly once whatever the outcome, and the
  result of \<open>withRetry\<close> is the outcome of that attempt: its value, or its error rethrown,
  retryable or not (or no return when the attempt never settles and the caller has
  switched the timer off). When the caller passes a \<open>maxRetries > 0\<close>, or none (the
  default is 3), a first failure that is not retryable is rethrown at once, after exactly
  one invocation and without sleeping. The attempt is judged under the merged
  configuration, whose \<open>maxRetries\<close> and \<open>timeoutMs\<close> are the caller's where given and the
  defaults 3 and 30000 otherwise.
\<close>

theorem retry_once_only:
  "(maxRetriesOpt config = Some 0 \<longrightarrow>
      withRetry fn config rnd s = (attemptOutcome (fullConfig config) (fst (fn s)), [], snd (fn s)) \<and>
      invocations fn config rnd s = 1) \<and>
   ((maxRetriesOpt config = None \<or> (\<exists>m. maxRetriesOpt config = Some m \<and> 0 < m)) \<and>
    attemptOutcome (fullConfig config) (fst (fn s)) = Thrown e \<and> \<not> isRetryableError e \<longrightarrow>
      withRetry fn config rnd s = (Thrown e, [], snd (fn s)) \<and>
      invocations fn config rnd s = 1) \<and>
   maxRetries (fullConfig config) = (case maxRetriesOpt config of None \<Rightarrow> 3 | Some m \<Rightarrow> m) \<and>
   timeoutMs (fullConfig config) = Some (case timeoutMsOpt config of None \<Rightarrow> 30000 | Some t \<Rightarrow> t)"
proof -
  have zero: "withRetry fn config rnd s =
        (attemptOutcome (fullConfig config) (fst (fn s)), [], snd (fn s)) \<and>
      invocations fn config rnd s = 1"
    if "maxRetriesOpt config = Some 0"
  proof -
    have "maxRetries (fullConfig config) = 0"
      using that by (simp add: fullConfig_merge)
    then show ?thesis
      using withRetryLoop_last[of 0 "fullConfig config" fn rnd None "[]" s]
        withRetryLoop_last[of 0 "fullConfig config" "counting fn" rnd None "[]" "(0, s)"]
      by (simp add: withRetry_def invocations_def)
  qed
  have fatal: "withRetry fn config rnd s = (Thrown e, [], snd (fn s)) \<and>
      invocations fn config rnd s = 1"
    if budget: "maxRetriesOpt config = None \<or> (\<exists>m. maxRetriesOpt config = Some m \<and> 0 < m)"
      and thrown: "attemptOutcome (fullConfig config) (fst (fn s)) = Thrown e"
      and fatal: "\<not> isRetryableError e"
  proof -
    have "0 < maxRetries (fullConfig config)"
      using budget by (auto simp add: fullConfig_merge)
    then show ?thesis
      using thrown fatal
        withRetryLoop_fatal[of 0 "fullConfig config" fn s e rnd None "[]"]
        withRetryLoop_fatal[of 0 "fullConfig config" "counting fn" "(0, s)" e rnd None "[]"]
      by (simp add: withRetry_def invocations_def)
  qed
  show ?thesis using zero fatal fullConfig_merge[of config] by blast
qed

text \<open>
  The theorem on two operations that always reject. With the caller's \<open>maxRetries = 0\<close>
  and a retryable error (a 503), the operation is invoked once and the error is
  rethrown. With \<open>maxRetries = 3\<close> and the plain \<open>Error\<close> of the test suite, which is not
  retryable, the operation is invoked once as well.
\<close>

theorem retry_once_only_witness:
  "withRetry (alwaysRejects (RetryableError ''server error'' (Some 503) None))
     (emptyPartialConfig\<lparr>maxRetriesOpt := Some 0\<rparr>) (\<lambda>_. 0) 0 =
     (Thrown (RetryableError ''server error'' (Some 503) None), [], 1) \<and>
   invocations (alwaysRejects (RetryableError ''server error'' (Some 503) None))
     (emptyPartialConfig\<lparr>maxRetriesOpt := Some 0\<rparr>) (\<lambda>_. 0) 0 = 1 \<and>
   withRetry (alwaysRejects (OtherError ''non-retryable''))
     (emptyPartialConfig\<lparr>maxRetriesOpt := Some 3, initialDelayMsOpt := Some 1\<rparr>) (\<lambda>_. 0) 0 =
     (Thrown (OtherError ''non-retryable''), [], 1) \<and>
   invocations (alwaysRejects (OtherError ''non-retryable''))
     (emptyPartialConfig\<lparr>maxRetriesOpt := Some 3, initialDelayMsOpt := Some 1\<rparr>) (\<lambda>_. 0) 0 = 1"
  using
    retry_once_only[of "emptyPartialConfig\<lparr>maxRetriesOpt := Some 0\<rparr>"
      "alwaysRejects (RetryableError ''server error'' (Some 503) None)" "\<lambda>_. 0" 0
      "OtherError ''non-retryable''"]
    retry_once_only[of "emptyPartialConfig\<lparr>maxRetriesOpt := Some 3, initialDelayMsOpt := Some 1\<rparr>"
      "alwaysRejects (OtherError ''non-retryable'')" "\<lambda>_. 0" 0 "OtherError ''non-retryable''"]
  by (simp add: fullConfig_def emptyPartialConfig_def DEFAULT_RETRY_CONFIG_def alwaysRejects_def
        attemptOutcome_def)

text \<open>
  For contrast: the same retryable error under the caller's \<open>maxRetries = 2\<close> is retried
  twice, so the operation is invoked three times.
\<close>

lemma retryable_error_is_retried:
  "invocations (alwaysRejects (RetryableError ''server error'' (Some 503) None))
     (emptyPartialConfig\<lparr>maxRetriesOpt := Some 2\<rparr>) (\<lambda>_. 0) 0 = 3"
  by (simp add: invocations_def withRetry_def withRetryLoop.simps fullConfig_def
        emptyPartialConfig_def DEFAULT_RETRY_CONFIG_def alwaysRejects_def attemptOutcome_def
        counting_def)

subsection \<open>The model chain and the fallback loop\<close>

lemma modelChain_eq:
  "modelChain config = model config # filter (\<lambda>f. f \<noteq> model config) MODEL_FALLBACK_ORDER"
  by (auto simp add: modelChain_def MODEL_FALLBACK_ORDER_def)

lemma modelChain_distinct: "distinct (modelChain config)"
  by (auto simp add: modelChain_eq MODEL_FALLBACK_ORDER_def)

lemma addFallbacks_general:
  "distinct models \<Longrightarrow>
   distinct (addFallbacks models fs) \<and> set (addFallbacks models fs) = set models \<union> set fs \<and>
   prefix models (addFallbacks models fs)"
proof (induction fs arbitrary: models)
  case Nil
  then show ?case by simp
next
  case (Cons f fs)
  let ?ms = "if f \<in> set models then models else models @ [f]"
  have d: "distinct ?ms" using Cons.prems by simp
  from Cons.IH[OF d] have IH: "distinct (addFallbacks ?ms fs)"
    "set (addFallbacks ?ms fs) = set ?ms \<union> set fs" "prefix ?ms (addFallbacks ?ms fs)"
    by blast+
  have "prefix models ?ms" by simp
  then have "prefix models (addFallbacks ?ms fs)"
    using IH(3) prefix_order.order_trans by blast
  then show ?case using IH by auto
qed

text \<open>Every model of the chain is sent under its own name.\<close>

lemma callOpenAIAPI_chain:
  "m \<in> set (modelChain config) \<Longrightarrow> callOpenAIAPI api config m = api m"
  by (auto simp add: callOpenAIAPI_def modelChain_eq MODEL_FALLBACK_ORDER_def split: if_splits)

lemma recording_fst [simp]: "fst (recording api m (calls, s)) = fst (api m s)"
  by (simp add: recording_def split_beta)

lemma recording_snd [simp]: "snd (recording api m (calls, s)) = (calls @ [m], snd (api m s))"
  by (simp add: recording_def split_beta)

text \<open>
  A retry loop over a recording operation behaves as the loop over the operation itself,
  and appends the model name once per invocation, at least once when the loop runs.
\<close>

lemma withRetryLoop_recording:
  "\<exists>k. withRetryLoop (recording api m) config rnd attempt lastError slept (calls, s) =
         (fst (withRetryLoop (api m) config rnd attempt lastError slept s),
          fst (snd (withRetryLoop (api m) config rnd attempt lastError slept s)),
          (calls @ replicate k m, snd (snd (withRetryLoop (api m) config rnd attempt lastError slept s)))) \<and>
       (int attempt \<le> maxRetries config \<longrightarrow> 1 \<le> k) \<and> int k \<le> max 0 (maxRetries config + 1 - int attempt)"
proof (induction "nat (maxRetries config + 1 - int attempt)"
    arbitrary: attempt lastError slept calls s)
  case 0
  then have "\<not> int attempt \<le> maxRetries config" by simp
  then have "withRetryLoop (recording api m) config rnd attempt lastError slept (calls, s) =
      (Thrown (case lastError of None \<Rightarrow> NotAnError | Some e \<Rightarrow> e), slept, (calls, s))"
    and "withRetryLoop (api m) config rnd attempt lastError slept s =
      (Thrown (case lastError of None \<Rightarrow> NotAnError | Some e \<Rightarrow> e), slept, s)"
    by (subst withRetryLoop.simps, simp)+
  then show ?case using \<open>\<not> int attempt \<le> maxRetries config\<close>
    by (intro exI[of _ 0]) simp
next
  case (Suc n)
  then have le: "int attempt \<le> maxRetries config" by simp
  let ?p = "fst (api m s)" and ?s' = "snd (api m s)"
  show ?case
  proof (cases "attemptOutcome config ?p")
    case (Returned v)
    then show ?thesis
      using le withRetryLoop_returned[of attempt config "api m" s v rnd lastError slept]
        withRetryLoop_returned[of attempt config "recording api m" "(calls, s)" v rnd lastError slept]
      by (intro exI[of _ 1]) simp
  next
    case Hung
    then show ?thesis
      using le withRetryLoop_hung[of attempt config "api m" s rnd lastError slept]
        withRetryLoop_hung[of attempt config "recording api m" "(calls, s)" rnd lastError slept]
      by (intro exI[of _ 1]) simp
  next
    case (Thrown e)
    show ?thesis
    proof (cases "int attempt < maxRetries config \<and> isRetryableError e")
      case False
      have stop: "withRetryLoop (api m) config rnd attempt lastError slept s = (Thrown e, slept, ?s')"
        using False le Thrown
        by (subst withRetryLoop.simps) (auto simp add: split_beta)
      have stop': "withRetryLoop (recording api m) config rnd attempt lastError slept (calls, s) =
          (Thrown e, slept, (calls @ [m], ?s'))"
        using False le Thrown
        by (subst withRetryLoop.simps) (auto simp add: split_beta)
      show ?thesis using stop stop' le
        by (intro exI[of _ 1]) simp
    next
      case True
      let ?slept' = "slept @ [calculateBackoff attempt config (rnd attempt) (retryAfterOf e)]"
      have go: "withRetryLoop (api m) config rnd attempt lastError slept s =
          withRetryLoop (api m) config rnd (Suc attempt) (Some e) ?slept' ?s'"
        using True Thrown withRetryLoop_retry[of attempt config "api m" s e rnd lastError slept]
        by simp
      have go': "withRetryLoop (recording api m) config rnd attempt lastError slept (calls, s) =
          withRetryLoop (recording api m) config rnd (Suc attempt) (Some e) ?slept' (calls @ [m], ?s')"
        using True Thrown
          withRetryLoop_retry[of attempt config "recording api m" "(calls, s)" e rnd lastError slept]
        by simp
      have "n = nat (maxRetries config + 1 - int (Suc attempt))"
        using Suc.hyps(2) by simp
      from Suc.hyps(1)[OF this, of "Some e" ?slept' "calls @ [m]" ?s']
      obtain k where k:
        "withRetryLoop (recording api m) config rnd (Suc attempt) (Some e) ?slept' (calls @ [m], ?s') =
           (fst (withRetryLoop (api m) config rnd (Suc attempt) (Some e) ?slept' ?s'),
            fst (snd (withRetryLoop (api m) config rnd (Suc attempt) (Some e) ?slept' ?s')),
            ((calls @ [m]) @ replicate k m,
             snd (snd (withRetryLoop (api m) config rnd (Suc attempt) (Some e) ?slept' ?s'))))"
        "int k \<le> max 0 (maxRetries config + 1 - int (Suc attempt))"
        by blast
      have "(calls @ [m]) @ replicate k m = calls @ replicate (Suc k) m"
        by (simp add: replicate_append_same)
      then show ?thesis
        using go go' k True by (intro exI[of _ "Suc k"]) simp
    qed
  qed
qed


lemma retryConfig_maxRetries [simp]: "maxRetries (fullConfig (fallbackRetryConfig config)) = 2"
  by (simp add: fullConfig_def fallbackRetryConfig_def)

lemma retriedCall_recording:
  assumes "m \<in> set (modelChain config)"
  shows "\<exists>k. retriedCall (recording api) config rnd m (calls, s) =
           (fst (retriedCall api config rnd m s), fst (snd (retriedCall api config rnd m s)),
            (calls @ replicate k m, snd (snd (retriedCall api config rnd m s)))) \<and>
           1 \<le> k \<and> k \<le> 3"
proof -
  have a: "callOpenAIAPI (recording api) config m = recording api m"
    and b: "callOpenAIAPI api config m = api m"
    using assms by (simp_all add: callOpenAIAPI_chain)
  from withRetryLoop_recording[of api m "fullConfig (fallbackRetryConfig config)" "rnd m" 0 None "[]" calls s]
  obtain k where
    "withRetryLoop (recording api m) (fullConfig (fallbackRetryConfig config)) (rnd m) 0 None [] (calls, s) =
       (fst (withRetryLoop (api m) (fullConfig (fallbackRetryConfig config)) (rnd m) 0 None [] s),
        fst (snd (withRetryLoop (api m) (fullConfig (fallbackRetryConfig config)) (rnd m) 0 None [] s)),
        (calls @ replicate k m,
         snd (snd (withRetryLoop (api m) (fullConfig (fallbackRetryConfig config)) (rnd m) 0 None [] s))))"
    "1 \<le> k" "k \<le> 3"
    by auto
  then show ?thesis
    by (intro exI[of _ k]) (simp add: retriedCall_def withRetry_def a b)
qed

lemma remdups_adj_block:
  "1 \<le> k \<Longrightarrow> m \<notin> set xs \<Longrightarrow> remdups_adj (replicate k m @ xs) = m # remdups_adj xs"
proof (induction k)
  case 0
  then show ?case by simp
next
  case (Suc k)
  show ?case
  proof (cases k)
    case 0
    then show ?thesis using Suc.prems by (cases xs) auto
  next
    case (Suc j)
    then have "remdups_adj (replicate k m @ xs) = m # remdups_adj xs"
      using Suc.IH Suc.prems by simp
    then show ?thesis using Suc by simp
  qed
qed

lemma fallbackLoop_unfold:
  "fallbackLoop api config rnd (m # ms) lastError s =
     (case retriedCall api config rnd m s of
        (Returned v, slept, s') \<Rightarrow> (Returned v, s')
      | (Thrown e, slept, s') \<Rightarrow> fallbackLoop api config rnd ms (Some e) s'
      | (Hung, slept, s') \<Rightarrow> (Hung, s'))"
  by (simp add: retriedCall_def)

lemma fallbackLoop_recording:
  assumes "distinct ms" and "set ms \<subseteq> set (modelChain config)"
  shows "\<exists>calls'. fallbackLoop (recording api) config rnd ms lastError (calls, s) =
           (fst (fallbackLoop api config rnd ms lastError s),
            (calls @ calls', snd (fallbackLoop api config rnd ms lastError s))) \<and>
           remdups_adj calls' = map fst (chainRun api config rnd ms s) \<and> set calls' \<subseteq> set ms"
  using assms
proof (induction ms arbitrary: lastError calls s)
  case Nil
  then show ?case by simp
next
  case (Cons m ms)
  have m: "m \<in> set (modelChain config)" using Cons.prems by simp
  obtain r slept s1 where R: "retriedCall api config rnd m s = (r, slept, s1)"
    by (cases "retriedCall api config rnd m s") auto
  from retriedCall_recording[OF m, of api rnd calls s] R
  obtain k where k: "retriedCall (recording api) config rnd m (calls, s) =
      (r, slept, (calls @ replicate k m, s1))" "1 \<le> k"
    by auto
  show ?case
  proof (cases r)
    case (Returned v)
    have "remdups_adj (replicate k m) = [m]"
      using k(2) remdups_adj_block[of k m "[]"] by simp
    then show ?thesis
      using R k Returned
      by (intro exI[of _ "replicate k m"]) (simp add: fallbackLoop_unfold del: fallbackLoop.simps(2))
  next
    case Hung
    have "remdups_adj (replicate k m) = [m]"
      using k(2) remdups_adj_block[of k m "[]"] by simp
    then show ?thesis
      using R k Hung
      by (intro exI[of _ "replicate k m"]) (simp add: fallbackLoop_unfold del: fallbackLoop.simps(2))
  next
    case (Thrown e)
    have d: "distinct ms" "set ms \<subseteq> set (modelChain config)" "m \<notin> set ms"
      using Cons.prems by auto
    from Cons.IH[OF d(1,2), of "Some e" "calls @ replicate k m" s1]
    obtain calls'' where c:
      "fallbackLoop (recording api) config rnd ms (Some e) (calls @ replicate k m, s1) =
         (fst (fallbackLoop api config rnd ms (Some e) s1),
          ((calls @ replicate k m) @ calls'', snd (fallbackLoop api config rnd ms (Some e) s1)))"
      "remdups_adj calls'' = map fst (chainRun api config rnd ms s1)" "set calls'' \<subseteq> set ms"
      by blast
    have "m \<notin> set calls''" using c(3) d(3) by auto
    then have "remdups_adj (replicate k m @ calls'') = m # remdups_adj calls''"
      using k(2) by (rule remdups_adj_block[rotated])
    then show ?thesis
      using R k Thrown c
      by (intro exI[of _ "replicate k m @ calls''"])
         (auto simp add: fallbackLoop_unfold simp del: fallbackLoop.simps(2))
  qed
qed

lemma chainRun_facts:
  "ms \<noteq> [] \<Longrightarrow>
   chainRun api config rnd ms s \<noteq> [] \<and>
   prefix (map fst (chainRun api config rnd ms s)) ms \<and>
   list_all isThrown (map snd (butlast (chainRun api config rnd ms s))) \<and>
   fst (fallbackLoop api config rnd ms lastError s) = snd (last (chainRun api config rnd ms s)) \<and>
   (isThrown (snd (last (chainRun api config rnd ms s))) \<longrightarrow>
      map fst (chainRun api config rnd ms s) = ms)"
proof (induction ms arbitrary: lastError s)
  case Nil
  then show ?case by simp
next
  case (Cons m ms)
  obtain r slept s1 where R: "retriedCall api config rnd m s = (r, slept, s1)"
    by (cases "retriedCall api config rnd m s") auto
  show ?case
  proof (cases r)
    case (Returned v)
    then show ?thesis using R by (simp add: fallbackLoop_unfold del: fallbackLoop.simps(2))
  next
    case Hung
    then show ?thesis using R by (simp add: fallbackLoop_unfold del: fallbackLoop.simps(2))
  next
    case (Thrown e)
    show ?thesis
    proof (cases ms)
      case Nil
      then show ?thesis using R Thrown by (simp add: fallbackLoop_unfold del: fallbackLoop.simps(2))
    next
      case (Cons m' ms')
      then have "ms \<noteq> []" by simp
      from Cons.IH[OF this, of s1 "Some e"] show ?thesis
        using R Thrown by (simp add: fallbackLoop_unfold del: fallbackLoop.simps(2))
    qed
  qed
qed


text \<open>
  Claim C7. The chain is the preferred model followed by the fallback models other than
  it, in their order and without duplicates. \<open>run\<close> lists the models whose retried call
  was made, each with its outcome. The run follows the chain from its first model
  without skipping (it is a prefix of the chain); every model but the last of the run
  failed; the result of \<open>callOpenAIWithFallback\<close> is the outcome of the last model of the
  run, so a success is returned at once; the run can end on a failure, of whatever
  class, only at the end of the chain, and the error thrown is then the last model's.
  The generator is called for exactly the models of the run, in that order, each in one
  block of consecutive calls, and never for a model outside the chain.
\<close>

theorem fallback_chain_order:
  "(let chain = modelChain config;
        run = chainRun api config rnd chain s;
        recorded = callOpenAIWithFallback (recording api) config rnd ([], s);
        calls = fst (snd recorded)
    in chain = model config # filter (\<lambda>f. f \<noteq> model config) MODEL_FALLBACK_ORDER \<and>
       distinct chain \<and>
       run \<noteq> [] \<and> prefix (map fst run) chain \<and>
       list_all isThrown (map snd (butlast run)) \<and>
       (isThrown (snd (last run)) \<longrightarrow> map fst run = chain) \<and>
       fst (callOpenAIWithFallback api config rnd s) = snd (last run) \<and>
       fst recorded = snd (last run) \<and>
       remdups_adj calls = map fst run \<and>
       set calls \<subseteq> set chain)"
proof -
  let ?chain = "modelChain config"
  let ?run = "chainRun api config rnd ?chain s"
  let ?recorded = "callOpenAIWithFallback (recording api) config rnd ([], s)"
  have ne: "?chain \<noteq> []" by (simp add: modelChain_eq)
  note facts = chainRun_facts[where ms = ?chain and api = api and config = config and rnd = rnd
      and s = s and lastError = None, OF ne]
  from fallbackLoop_recording[where ms = ?chain and config = config and api = api and rnd = rnd
      and lastError = None and calls = "[]" and s = s, OF modelChain_distinct subset_refl]
  obtain calls' where rec:
    "fallbackLoop (recording api) config rnd ?chain None ([], s) =
       (fst (fallbackLoop api config rnd ?chain None s),
        ([] @ calls', snd (fallbackLoop api config rnd ?chain None s)))"
    "remdups_adj calls' = map fst ?run" "set calls' \<subseteq> set ?chain"
    by blast
  have r1: "fst ?recorded = snd (last ?run)"
    using rec(1) facts by (simp add: callOpenAIWithFallback_def)
  have r2: "fst (snd ?recorded) = calls'"
    using rec(1) by (simp add: callOpenAIWithFallback_def)
  have r3: "fst (callOpenAIWithFallback api config rnd s) = snd (last ?run)"
    using facts by (simp add: callOpenAIWithFallback_def)
  show ?thesis
    unfolding Let_def
    using modelChain_eq[of config] modelChain_distinct[of config] facts r1 r2 r3 rec(2,3)
    by simp
qed

lemma demo_chain: "modelChain demoLLMConfig = [''gpt-4'', ''gpt-4o-mini'', ''gpt-3.5-turbo'']"
  by (simp add: modelChain_def demoLLMConfig_def getLLMConfig_def MODEL_FALLBACK_ORDER_def)

lemma demo_retry_config:
  "fullConfig (fallbackRetryConfig demoLLMConfig) =
     \<lparr>maxRetries = 2, initialDelayMs = 1000, maxDelayMs = 5000, backoffMultiplier = 2,
      timeoutMs = Some 30000\<rparr>"
  by (simp add: fullConfig_def fallbackRetryConfig_def demoLLMConfig_def getLLMConfig_def
        DEFAULT_RETRY_CONFIG_def)

lemma demo_rate_limited_call:
  "retriedCall alwaysRateLimited demoLLMConfig (\<lambda>_ _. 0) m () =
     (Thrown (RateLimitError 1), [1000, 1000], ())"
  by (simp add: retriedCall_def withRetry_def demo_retry_config withRetryLoop.simps
        callOpenAIAPI_def alwaysRateLimited_def attemptOutcome_def calculateBackoff_def)

lemma demo_rejected_call:
  "retriedCall firstModelRejected demoLLMConfig (\<lambda>_ _. 0) ''gpt-4'' () =
     (Thrown (APIError ''bad request'' 400 None False), [], ())"
  by (simp add: retriedCall_def withRetry_def demo_retry_config withRetryLoop.simps
        callOpenAIAPI_def firstModelRejected_def attemptOutcome_def)

lemma demo_answered_call:
  "retriedCall firstModelRejected demoLLMConfig (\<lambda>_ _. 0) ''gpt-4o-mini'' () =
     (Returned ''{}'', [], ())"
  by (simp add: retriedCall_def withRetry_def demo_retry_config withRetryLoop.simps
        callOpenAIAPI_def firstModelRejected_def attemptOutcome_def)

lemma demo_run_rate_limited:
  "chainRun alwaysRateLimited demoLLMConfig (\<lambda>_ _. 0) (modelChain demoLLMConfig) () =
     [(''gpt-4'', Thrown (RateLimitError 1)), (''gpt-4o-mini'', Thrown (RateLimitError 1)),
      (''gpt-3.5-turbo'', Thrown (RateLimitError 1))]"
  by (simp add: demo_chain demo_rate_limited_call)

lemma demo_run_rejected:
  "chainRun firstModelRejected demoLLMConfig (\<lambda>_ _. 0) (modelChain demoLLMConfig) () =
     [(''gpt-4'', Thrown (APIError ''bad request'' 400 None False)), (''gpt-4o-mini'', Returned ''{}'')]"
  by (simp add: demo_chain demo_rejected_call demo_answered_call)

text \<open>
  The theorem on two generators under the preferred model \<open>gpt-4\<close>: one that rate-limits
  every model (all three models are tried, the last error is thrown), and one that
  rejects the first model with a client error that is not retryable (the second model
  answers, the third is never called).
\<close>

theorem fallback_chain_order_witness:
  "fst (callOpenAIWithFallback (recording alwaysRateLimited) demoLLMConfig (\<lambda>_ _. 0) ([], ())) =
     Thrown (RateLimitError 1) \<and>
   remdups_adj (fst (snd (callOpenAIWithFallback (recording alwaysRateLimited) demoLLMConfig
     (\<lambda>_ _. 0) ([], ())))) = [''gpt-4'', ''gpt-4o-mini'', ''gpt-3.5-turbo''] \<and>
   fst (callOpenAIWithFallback (recording firstModelRejected) demoLLMConfig (\<lambda>_ _. 0) ([], ())) =
     Returned ''{}'' \<and>
   remdups_adj (fst (snd (callOpenAIWithFallback (recording firstModelRejected) demoLLMConfig
     (\<lambda>_ _. 0) ([], ())))) = [''gpt-4'', ''gpt-4o-mini'']"
proof -
  have a: "fst (callOpenAIWithFallback (recording alwaysRateLimited) demoLLMConfig (\<lambda>_ _. 0) ([], ())) =
        snd (last (chainRun alwaysRateLimited demoLLMConfig (\<lambda>_ _. 0) (modelChain demoLLMConfig) ())) \<and>
      remdups_adj (fst (snd (callOpenAIWithFallback (recording alwaysRateLimited) demoLLMConfig
        (\<lambda>_ _. 0) ([], ())))) =
        map fst (chainRun alwaysRateLimited demoLLMConfig (\<lambda>_ _. 0) (modelChain demoLLMConfig) ())"
    using fallback_chain_order[of demoLLMConfig alwaysRateLimited "\<lambda>_ _. 0" "()"]
    unfolding Let_def by blast
  have b: "fst (callOpenAIWithFallback (recording firstModelRejected) demoLLMConfig (\<lambda>_ _. 0) ([], ())) =
        snd (last (chainRun firstModelRejected demoLLMConfig (\<lambda>_ _. 0) (modelChain demoLLMConfig) ())) \<and>
      remdups_adj (fst (snd (callOpenAIWithFallback (recording firstModelRejected) demoLLMConfig
        (\<lambda>_ _. 0) ([], ())))) =
        map fst (chainRun firstModelRejected demoLLMConfig (\<lambda>_ _. 0) (modelChain demoLLMConfig) ())"
    using fallback_chain_order[of demoLLMConfig firstModelRejected "\<lambda>_ _. 0" "()"]
    unfolding Let_def by blast
  show ?thesis
    using a b by (simp add: demo_run_rate_limited demo_run_rejected)
qed

subsection \<open>callLLM\<close>






lemma apiKey_of_env:
  "apiKey (getLLMConfig e) = (case OPENAI_API_KEY e of None \<Rightarrow> [] | Some k \<Rightarrow> k)"
  by (simp add: getLLMConfig_def)


lemma callLLM_failure:
  "apiKey (getLLMConfig (env sv)) \<noteq> [] \<Longrightarrow>
   callOpenAIWithFallback (generator sv a f) (getLLMConfig (env sv)) (random sv) s = (Thrown e, s') \<Longrightarrow>
   callLLM sv a f topics s = (Returned (getDefaultResult (Some (failureText e))), s')"
  by (simp add: callLLM_def)

lemma callLLM_success:
  "apiKey (getLLMConfig (env sv)) \<noteq> [] \<Longrightarrow>
   callOpenAIWithFallback (generator sv a f) (getLLMConfig (env sv)) (random sv) s = (Returned content, s') \<Longrightarrow>
   callLLM sv a f topics s = (Returned (parseLLMResponse sv content), s')"
  by (simp add: callLLM_def)


lemma orElse_nonempty: "d \<noteq> [] \<Longrightarrow> orElse m d \<noteq> []"
  by (simp add: orElse_def split: option.splits)

lemma getDefaultResult_nonempty: "textsNonEmpty (getDefaultResult m)"
  by (simp add: textsNonEmpty_def getDefaultResult_def Let_def orElse_nonempty
        msgDefaultPalace_def msgDefaultSummary_def)

subsection \<open>The interpret route\<close>

lemma lru_set_entry:
  "ttl \<noteq> 0 \<Longrightarrow>
   map_of (cache (lru_set t key v (Some ttl) c)) key = Some \<lparr>entryValue = v, expiresAt = t + ttl\<rparr>"
  by (simp add: lru_set_def Let_def ttlOrDefault_def update_conv')

lemma lru_get_after_set:
  assumes "ttl \<noteq> 0" and "now \<le> t + ttl"
  shows "fst (lru_get now key (lru_set t key v (Some ttl) c)) = Some v"
  using assms(2) lru_set_entry[OF assms(1), of t key v c]
    lru_get_live[of "lru_set t key v (Some ttl) c" key "\<lparr>entryValue = v, expiresAt = t + ttl\<rparr>" now]
  by simp

lemma memoryTTL_nonzero: "memoryTTL \<noteq> 0"
  by (simp add: memoryTTL_def)

lemma header_source [simp]:
  "header ''X-Cache-Source'' (resultResponse result src rl) = Some (cacheSourceName src)"
  by (simp add: header_def resultResponse_def)

lemma status_result [simp]: "status (resultResponse result src rl) = 200"
  by (simp add: resultResponse_def)

lemma body_result [simp]: "body (resultResponse result src rl) = ResultBody result"
  by (simp add: resultResponse_def)

text \<open>The route on a request that is admitted, well-formed and hits the memory cache.\<close>

lemma POST_memory_hit:
  assumes "allowed (admission clk request st)"
    and "requestBody request = Some b" and "bodyAstrolabe b = Some a"
    and "fst (lru_get (atCacheGet clk) (buildInterpretCacheKey a (bodyFortune b)) (interpretCache st)) =
           Some result"
  shows "POST sv clk request (st, w) =
     (Some (resultResponse result Memory (admission clk request st)), [],
      st\<lparr>limits := snd (checkRateLimit (atRateLimit clk) (clientIP request)
                        RATE_LIMIT_CONFIGS_interpret (limits st)),
         interpretCache := snd (lru_get (atCacheGet clk) (buildInterpretCacheKey a (bodyFortune b))
                                 (interpretCache st))\<rparr>,
      w)"
  using assms by (simp add: POST_def admission_def split_beta Let_def split: option.splits)

text \<open>
  The route on a request that is admitted, well-formed, misses both caches and for which
  \<open>callLLM\<close> returns \<open>result\<close>.
\<close>

lemma POST_compute:
  assumes "allowed (admission clk request st)"
    and "requestBody request = Some b" and "bodyAstrolabe b = Some a"
    and "fst (lru_get (atCacheGet clk) (buildInterpretCacheKey a (bodyFortune b)) (interpretCache st)) = None"
    and "storeMisses sv a (bodyFortune b) w"
    and "callLLM sv a (bodyFortune b) (case bodyTopics b of None \<Rightarrow> [] | Some t \<Rightarrow> t)
           (worldAfterStore sv a (bodyFortune b) w) = (Returned result, w')"
  shows "POST sv clk request (st, w) =
     (Some (resultResponse result LLM (admission clk request st)),
      (if isSupabaseConfigured sv then
         [SaveInterpretation (chartId a) (getFortuneScope (bodyFortune b))
            (buildFortuneParams (bodyFortune b)) result]
       else []),
      st\<lparr>limits := snd (checkRateLimit (atRateLimit clk) (clientIP request)
                        RATE_LIMIT_CONFIGS_interpret (limits st)),
         interpretCache :=
           lru_set (atCacheSet clk) (buildInterpretCacheKey a (bodyFortune b)) result (Some memoryTTL)
             (snd (lru_get (atCacheGet clk) (buildInterpretCacheKey a (bodyFortune b))
                (interpretCache st)))\<rparr>,
      w')"
  using assms
  by (simp add: POST_def persistentTier_def computeTier_def admission_def storeMisses_def
        worldAfterStore_def split_beta Let_def split: option.splits if_splits)

text \<open>A hit in the persistent store answers without the third tier.\<close>

lemma POST_store_hit:
  assumes "allowed (admission clk request st)"
    and "requestBody request = Some b" and "bodyAstrolabe b = Some a"
    and "fst (lru_get (atCacheGet clk) (buildInterpretCacheKey a (bodyFortune b)) (interpretCache st)) = None"
    and "isSupabaseConfigured sv"
    and "getCachedInterpretation sv (chartId a) (getFortuneScope (bodyFortune b))
           (buildFortuneParams (bodyFortune b)) w = (Some result, w')"
  shows "fst (POST sv clk request (st, w)) = Some (resultResponse result Supabase (admission clk request st)) \<and>
         snd (snd (snd (POST sv clk request (st, w)))) = w'"
  using assms
  by (simp add: POST_def persistentTier_def admission_def split_beta Let_def split: option.splits)

text \<open>
  Two requests for the same chart and fortune: the first is answered by \<open>callLLM\<close> with
  \<open>result\<close>, the second arrives while the entry is live and is admitted.
\<close>

lemma compute_then_memory:
  assumes admitted1: "allowed (admission clk1 request st)"
    and body: "requestBody request = Some b" "bodyAstrolabe b = Some a"
    and memMiss: "fst (lru_get (atCacheGet clk1) (buildInterpretCacheKey a (bodyFortune b))
                        (interpretCache st)) = None"
    and storeMiss: "storeMisses sv a (bodyFortune b) w"
    and llm: "callLLM sv a (bodyFortune b) (case bodyTopics b of None \<Rightarrow> [] | Some t \<Rightarrow> t)
                (worldAfterStore sv a (bodyFortune b) w) = (Returned result, w')"
    and first: "POST sv clk1 request (st, w) = (resp1, started1, st1, w1)"
    and admitted2: "allowed (admission clk2 request st1)"
    and within: "atCacheGet clk2 \<le> atCacheSet clk1 + memoryTTL"
    and second: "POST sv clk2 request (st1, w1) = (resp2, started2, st2, w2)"
  shows "resp1 = Some (resultResponse result LLM (admission clk1 request st))"
    and "started1 = (if isSupabaseConfigured sv then
                       [SaveInterpretation (chartId a) (getFortuneScope (bodyFortune b))
                          (buildFortuneParams (bodyFortune b)) result]
                     else [])"
    and "map_of (cache (interpretCache st1)) (buildInterpretCacheKey a (bodyFortune b)) =
           Some \<lparr>entryValue = result, expiresAt = atCacheSet clk1 + memoryTTL\<rparr>"
    and "w1 = w'"
    and "resp2 = Some (resultResponse result Memory (admission clk2 request st1))"
    and "started2 = []" and "w2 = w1"
proof -
  let ?key = "buildInterpretCacheKey a (bodyFortune b)"
  note p1 = POST_compute[OF admitted1 body memMiss storeMiss llm]
  from p1 first show r1: "resp1 = Some (resultResponse result LLM (admission clk1 request st))"
    and "started1 = (if isSupabaseConfigured sv then
                       [SaveInterpretation (chartId a) (getFortuneScope (bodyFortune b))
                          (buildFortuneParams (bodyFortune b)) result]
                     else [])"
    and w1: "w1 = w'"
    by simp_all
  from p1 first have c1: "interpretCache st1 =
      lru_set (atCacheSet clk1) ?key result (Some memoryTTL)
        (snd (lru_get (atCacheGet clk1) ?key (interpretCache st)))"
    by auto
  show "map_of (cache (interpretCache st1)) ?key =
      Some \<lparr>entryValue = result, expiresAt = atCacheSet clk1 + memoryTTL\<rparr>"
    unfolding c1 using memoryTTL_nonzero by (rule lru_set_entry)
  have hit: "fst (lru_get (atCacheGet clk2) ?key (interpretCache st1)) = Some result"
    unfolding c1 using memoryTTL_nonzero within by (rule lru_get_after_set)
  note p2 = POST_memory_hit[OF admitted2 body hit, of sv w1]
  from p2 second show "resp2 = Some (resultResponse result Memory (admission clk2 request st1))"
    and "started2 = []" and "w2 = w1"
    by simp_all
qed

lemma list_all_map_butlast_last:
  "xs \<noteq> [] \<Longrightarrow> list_all P (map f (butlast xs)) \<Longrightarrow> P (f (last xs)) \<Longrightarrow> list_all P (map f xs)"
  by (induction xs) (auto split: if_splits)

subsection \<open>Two concrete deployments\<close>

lemma natal_body:
  "requestBody natalRequest = Some natalBody" "bodyAstrolabe natalBody = Some natalChart"
  "bodyFortune natalBody = None" "bodyTopics natalBody = None" "clientIP natalRequest = ''10.0.0.1''"
  by (simp_all add: natalRequest_def natalBody_def)

lemma natal_key: "buildInterpretCacheKey natalChart (bodyFortune natalBody) = ''interpret:chart1:natal''"
  by (simp add: natal_body buildInterpretCacheKey_def natalChart_def generateCacheKey_def
        cacheKeyPart_def)

lemma natal_first_limit:
  "checkRateLimit (atRateLimit firstClock) (clientIP natalRequest) RATE_LIMIT_CONFIGS_interpret
     (limits freshServer) =
   (\<lparr>allowed = True, remaining = 9, resultResetTime = 61000, retryAfter = None\<rparr>,
    Map.empty(''interpret:10.0.0.1'' \<mapsto> \<lparr>count = 1, resetTime = 61000\<rparr>))"
  by (simp add: natal_body firstClock_def freshServer_def checkRateLimit_def freshWindow_def
        RATE_LIMIT_CONFIGS_interpret_def rateLimitKey_def Let_def)

lemma natal_admitted: "allowed (admission firstClock natalRequest freshServer)"
  by (simp add: admission_def natal_first_limit)

lemma natal_memory_miss:
  "fst (lru_get (atCacheGet firstClock) (buildInterpretCacheKey natalChart (bodyFortune natalBody))
          (interpretCache freshServer)) = None"
  by (simp add: lru_get_def freshServer_def newLRUCache_def)

lemma natal_admitted_again:
  "limits st = Map.empty(''interpret:10.0.0.1'' \<mapsto> \<lparr>count = 1, resetTime = 61000\<rparr>) \<Longrightarrow>
   allowed (admission secondClock natalRequest st)"
  by (simp add: admission_def natal_body secondClock_def checkRateLimit_def
        RATE_LIMIT_CONFIGS_interpret_def rateLimitKey_def Let_def)

lemma demo_config:
  "getLLMConfig (env failingServices) =
     \<lparr>apiKey = ''sk-test'', model = ''gpt-4o-mini'', maxTokens = 4096, temperature = 0.7,
      llmTimeoutMs = 30000\<rparr>"
  "getLLMConfig (env answeringServices) =
     \<lparr>apiKey = ''sk-test'', model = ''gpt-4o-mini'', maxTokens = 4096, temperature = 0.7,
      llmTimeoutMs = 30000\<rparr>"
  by (simp_all add: getLLMConfig_def failingServices_def answeringServices_def)

lemma demo_key:
  "apiKey (getLLMConfig (env failingServices)) \<noteq> []"
  "apiKey (getLLMConfig (env answeringServices)) \<noteq> []"
  by (simp_all add: demo_config)

lemma demo_route_retry_config:
  "fullConfig (fallbackRetryConfig \<lparr>apiKey = ''sk-test'', model = ''gpt-4o-mini'', maxTokens = 4096,
      temperature = 0.7, llmTimeoutMs = 30000\<rparr>) =
     \<lparr>maxRetries = 2, initialDelayMs = 1000, maxDelayMs = 5000, backoffMultiplier = 2,
      timeoutMs = Some 30000\<rparr>"
  by (simp add: fullConfig_def fallbackRetryConfig_def DEFAULT_RETRY_CONFIG_def)

lemma demo_route_chain:
  "modelChain \<lparr>apiKey = ''sk-test'', model = ''gpt-4o-mini'', maxTokens = 4096,
      temperature = 0.7, llmTimeoutMs = 30000\<rparr> = [''gpt-4o-mini'', ''gpt-3.5-turbo'']"
  by (simp add: modelChain_def MODEL_FALLBACK_ORDER_def)

lemma demo_parts:
  "generator failingServices = countedRateLimited" "random failingServices = (\<lambda>m n. 0)"
  "generator answeringServices = countedAnswering" "random answeringServices = (\<lambda>m n. 0)"
  "parseLLMResponse answeringServices = echoParser"
  "isSupabaseConfigured answeringServices" "isSupabaseConfigured failingServices"
  by (simp_all add: failingServices_def answeringServices_def)

lemma failing_fallback:
  "callOpenAIWithFallback (generator failingServices a f) (getLLMConfig (env failingServices))
     (random failingServices) n = (Thrown (RateLimitError 1), n + 6)"
  unfolding callOpenAIWithFallback_def demo_config demo_route_chain demo_parts
  by (simp add: withRetry_def demo_route_retry_config withRetryLoop.simps callOpenAIAPI_def
        countedRateLimited_def attemptOutcome_def calculateBackoff_def)

lemma answering_fallback:
  "callOpenAIWithFallback (generator answeringServices a f) (getLLMConfig (env answeringServices))
     (random answeringServices) n = (Returned ''reading'', Suc n)"
  unfolding callOpenAIWithFallback_def demo_config demo_route_chain demo_parts
  by (simp add: withRetry_def demo_route_retry_config withRetryLoop.simps callOpenAIAPI_def
        countedAnswering_def attemptOutcome_def)

lemma demo_store_misses:
  "storeMisses failingServices a f w" "worldAfterStore failingServices a f w = w"
  "storeMisses answeringServices a f w" "worldAfterStore answeringServices a f w = w"
  by (simp_all add: storeMisses_def worldAfterStore_def failingServices_def answeringServices_def
        emptyStore_def)

subsection \<open>The route when every model fails\<close>

text \<open>
  Claim C3, as the code has it. A request is admitted, well-formed and misses both
  caches; an API key is set; \<open>callOpenAIWithFallback\<close> throws \<open>e\<close>. Then every model of the
  chain was tried and failed, and \<open>e\<close> is the error of the last one. \<open>callLLM\<close> catches it,
  and the route answers with status 200: the body is the default result whose texts are
  chosen by the class of \<open>e\<close> and are all non-empty, and the cache source is \<open>llm\<close>. No
  error response is produced.
\<close>

theorem exhausted_chain_answers_default:
  assumes admitted: "allowed (admission clk request st)"
    and body: "requestBody request = Some b" "bodyAstrolabe b = Some a"
    and memMiss: "fst (lru_get (atCacheGet clk) (buildInterpretCacheKey a (bodyFortune b))
                        (interpretCache st)) = None"
    and storeMiss: "storeMisses sv a (bodyFortune b) w"
    and key: "OPENAI_API_KEY (env sv) = Some k" "k \<noteq> []"
    and exhausted: "callOpenAIWithFallback (generator sv a (bodyFortune b)) (getLLMConfig (env sv))
                      (random sv) (worldAfterStore sv a (bodyFortune b) w) = (Thrown e, w')"
  shows
    "(let run = chainRun (generator sv a (bodyFortune b)) (getLLMConfig (env sv)) (random sv)
                  (modelChain (getLLMConfig (env sv))) (worldAfterStore sv a (bodyFortune b) w);
          response = fst (POST sv clk request (st, w))
      in map fst run = modelChain (getLLMConfig (env sv)) \<and>
         list_all isThrown (map snd run) \<and>
         snd (last run) = Thrown e \<and>
         response = Some (resultResponse (getDefaultResult (Some (failureText e))) LLM
                            (admission clk request st)) \<and>
         map_option status response = Some 200 \<and>
         map_option body response = Some (ResultBody (getDefaultResult (Some (failureText e)))) \<and>
         map_option (header ''X-Cache-Source'') response = Some (Some ''llm'') \<and>
         textsNonEmpty (getDefaultResult (Some (failureText e))))"
proof -
  let ?cfg = "getLLMConfig (env sv)"
  let ?w0 = "worldAfterStore sv a (bodyFortune b) w"
  let ?run = "chainRun (generator sv a (bodyFortune b)) ?cfg (random sv) (modelChain ?cfg) ?w0"
  let ?dflt = "getDefaultResult (Some (failureText e))"
  have ne: "modelChain ?cfg \<noteq> []" by (simp add: modelChain_eq)
  note facts = chainRun_facts[where ms = "modelChain ?cfg" and api = "generator sv a (bodyFortune b)"
      and config = ?cfg and rnd = "random sv" and s = ?w0 and lastError = None, OF ne]
  have "fst (fallbackLoop (generator sv a (bodyFortune b)) ?cfg (random sv) (modelChain ?cfg) None ?w0) =
      Thrown e"
    using exhausted by (simp add: callOpenAIWithFallback_def)
  then have last: "snd (last ?run) = Thrown e"
    using facts by simp
  then have whole: "map fst ?run = modelChain ?cfg"
    using facts by simp
  have "?run \<noteq> []" and "list_all isThrown (map snd (butlast ?run))" and "isThrown (snd (last ?run))"
    using facts last by simp_all
  then have all: "list_all isThrown (map snd ?run)"
    by (rule list_all_map_butlast_last)
  have k: "apiKey ?cfg \<noteq> []"
    using key by (simp add: apiKey_of_env)
  have llm: "callLLM sv a (bodyFortune b) (case bodyTopics b of None \<Rightarrow> [] | Some t \<Rightarrow> t) ?w0 =
      (Returned ?dflt, w')"
    using k exhausted by (rule callLLM_failure)
  have resp: "fst (POST sv clk request (st, w)) =
      Some (resultResponse ?dflt LLM (admission clk request st))"
    by (simp only: POST_compute[OF admitted body memMiss storeMiss llm] fst_conv)
  have r2: "map_option status (fst (POST sv clk request (st, w))) = Some 200"
    and r3: "map_option body (fst (POST sv clk request (st, w))) = Some (ResultBody ?dflt)"
    and r4: "map_option (header ''X-Cache-Source'') (fst (POST sv clk request (st, w))) = Some (Some ''llm'')"
    by (simp_all only: resp option.map status_result body_result header_source cacheSourceName.simps)
  have ne': "textsNonEmpty ?dflt" by (rule getDefaultResult_nonempty)
  show ?thesis
    unfolding Let_def using whole all last resp r2 r3 r4 ne' by blast
qed


lemma demo_env:
  "OPENAI_API_KEY (env failingServices) = Some ''sk-test''"
  "OPENAI_API_KEY (env answeringServices) = Some ''sk-test''"
  "''sk-test'' \<noteq> []"
  by (simp_all add: failingServices_def answeringServices_def)

lemma failing_exhausted:
  "callOpenAIWithFallback (generator failingServices natalChart (bodyFortune natalBody))
     (getLLMConfig (env failingServices)) (random failingServices)
     (worldAfterStore failingServices natalChart (bodyFortune natalBody) 0) =
   (Thrown (RateLimitError 1), 6)"
  by (simp only: demo_store_misses failing_fallback) simp

lemma answering_succeeds:
  "callOpenAIWithFallback (generator answeringServices natalChart (bodyFortune natalBody))
     (getLLMConfig (env answeringServices)) (random answeringServices)
     (worldAfterStore answeringServices natalChart (bodyFortune natalBody) 0) =
   (Returned ''reading'', 1)"
  by (simp only: demo_store_misses answering_fallback) simp

text \<open>
  The theorem on the deployment whose models are all rate-limited: the first request to a
  fresh server is answered with the text for a busy service.
\<close>

theorem exhausted_chain_answers_default_witness:
  "fst (POST failingServices firstClock natalRequest (freshServer, 0)) =
     Some (resultResponse (getDefaultResult (Some msgBusy)) LLM
             (admission firstClock natalRequest freshServer))"
proof -
  note t = exhausted_chain_answers_default[OF natal_admitted natal_body(1,2) natal_memory_miss
      demo_store_misses(1) demo_env(1,3) failing_exhausted]
  have "failureText (RateLimitError 1) = msgBusy" by simp
  with t show ?thesis unfolding Let_def by metis
qed

text \<open>
  Claim C3 as written says the exhausted chain is rendered as a 5xx or 502 error
  response. On the deployment whose models are all rate-limited the response has status
  200 and an interpretation as its body.
\<close>

theorem exhausted_chain_status_counterexample:
  "map_option status (fst (POST failingServices firstClock natalRequest (freshServer, 0))) = Some 200 \<and>
   map_option status (fst (POST failingServices firstClock natalRequest (freshServer, 0))) \<noteq> Some 500 \<and>
   map_option status (fst (POST failingServices firstClock natalRequest (freshServer, 0))) \<noteq> Some 502 \<and>
   map_option body (fst (POST failingServices firstClock natalRequest (freshServer, 0))) =
     Some (ResultBody (getDefaultResult (Some msgBusy)))"
proof -
  have "callLLM failingServices natalChart (bodyFortune natalBody)
      (case bodyTopics natalBody of None \<Rightarrow> [] | Some t \<Rightarrow> t)
      (worldAfterStore failingServices natalChart (bodyFortune natalBody) 0) =
      (Returned (getDefaultResult (Some (failureText (RateLimitError 1)))), 6)"
    using demo_key(1) failing_exhausted by (rule callLLM_failure)
  then have llm: "callLLM failingServices natalChart (bodyFortune natalBody)
      (case bodyTopics natalBody of None \<Rightarrow> [] | Some t \<Rightarrow> t)
      (worldAfterStore failingServices natalChart (bodyFortune natalBody) 0) =
      (Returned (getDefaultResult (Some msgBusy)), 6)"
    by (simp only: failureText.simps)
  have "fst (POST failingServices firstClock natalRequest (freshServer, 0)) =
      Some (resultResponse (getDefaultResult (Some msgBusy)) LLM
              (admission firstClock natalRequest freshServer))"
    by (simp only: POST_compute[OF natal_admitted natal_body(1,2) natal_memory_miss
          demo_store_misses(1) llm] fst_conv)
  then show ?thesis
    by (simp only: option.map status_result body_result) simp
qed

subsection \<open>The tiers in order, and the second request\<close>

text \<open>
  Claim C9, with the name the code gives the third tier. The first request is admitted,
  well-formed, misses the memory cache and the persistent store, and its computation
  succeeds with \<open>content\<close>. It is answered with the parsed content and the cache source
  \<open>llm\<close>; the generator ran in the world the store lookup left, that is after it; and the
  memory cache holds the result for the memory TTL. The second, identical request is
  admitted and arrives within the TTL: it is answered with the same body and the cache
  source \<open>memory\<close>, starts nothing, and leaves the world as it was, so neither the store
  nor the generator is consulted again.
\<close>

theorem tiered_lookup_then_memory:
  assumes admitted1: "allowed (admission clk1 request st)"
    and body: "requestBody request = Some b" "bodyAstrolabe b = Some a"
    and memMiss: "fst (lru_get (atCacheGet clk1) (buildInterpretCacheKey a (bodyFortune b))
                        (interpretCache st)) = None"
    and storeMiss: "storeMisses sv a (bodyFortune b) w"
    and key: "OPENAI_API_KEY (env sv) = Some k" "k \<noteq> []"
    and succeeds: "callOpenAIWithFallback (generator sv a (bodyFortune b)) (getLLMConfig (env sv))
                     (random sv) (worldAfterStore sv a (bodyFortune b) w) = (Returned content, w')"
    and first: "POST sv clk1 request (st, w) = (resp1, started1, st1, w1)"
    and admitted2: "allowed (admission clk2 request st1)"
    and within: "atCacheGet clk2 \<le> atCacheSet clk1 + memoryTTL"
    and second: "POST sv clk2 request (st1, w1) = (resp2, started2, st2, w2)"
  shows
    "resp1 = Some (resultResponse (parseLLMResponse sv content) LLM (admission clk1 request st)) \<and>
     map_option (header ''X-Cache-Source'') resp1 = Some (Some ''llm'') \<and>
     w1 = w' \<and>
     map_of (cache (interpretCache st1)) (buildInterpretCacheKey a (bodyFortune b)) =
       Some \<lparr>entryValue = parseLLMResponse sv content, expiresAt = atCacheSet clk1 + memoryTTL\<rparr> \<and>
     resp2 = Some (resultResponse (parseLLMResponse sv content) Memory (admission clk2 request st1)) \<and>
     map_option (header ''X-Cache-Source'') resp2 = Some (Some ''memory'') \<and>
     map_option body resp2 = map_option body resp1 \<and>
     started2 = [] \<and> w2 = w1"
proof -
  let ?result = "parseLLMResponse sv content"
  have k: "apiKey (getLLMConfig (env sv)) \<noteq> []"
    using key by (simp add: apiKey_of_env)
  have llm: "callLLM sv a (bodyFortune b) (case bodyTopics b of None \<Rightarrow> [] | Some t \<Rightarrow> t)
      (worldAfterStore sv a (bodyFortune b) w) = (Returned ?result, w')"
    using k succeeds by (rule callLLM_success)
  note c = compute_then_memory[OF admitted1 body memMiss storeMiss llm first admitted2 within second]
  have h1: "map_option (header ''X-Cache-Source'') resp1 = Some (Some ''llm'')"
    by (simp only: c(1) option.map header_source cacheSourceName.simps)
  have h2: "map_option (header ''X-Cache-Source'') resp2 = Some (Some ''memory'')"
    by (simp only: c(5) option.map header_source cacheSourceName.simps)
  have h3: "map_option body resp2 = map_option body resp1"
    by (simp only: c(1) c(5) option.map body_result)
  show ?thesis
    using c(1) h1 c(4) c(3) c(5) h2 h3 c(6) c(7) by blast
qed

lemma answering_llm:
  "callLLM answeringServices natalChart (bodyFortune natalBody)
     (case bodyTopics natalBody of None \<Rightarrow> [] | Some t \<Rightarrow> t)
     (worldAfterStore answeringServices natalChart (bodyFortune natalBody) 0) =
   (Returned (echoParser ''reading''), 1)"
  using callLLM_success[OF demo_key(2) answering_succeeds]
  by (simp only: demo_parts)

lemma answering_first:
  "POST answeringServices firstClock natalRequest (freshServer, 0) =
     (Some (resultResponse (echoParser ''reading'') LLM (admission firstClock natalRequest freshServer)),
      [SaveInterpretation (chartId natalChart) (getFortuneScope (bodyFortune natalBody))
         (buildFortuneParams (bodyFortune natalBody)) (echoParser ''reading'')],
      freshServer\<lparr>limits := snd (checkRateLimit (atRateLimit firstClock) (clientIP natalRequest)
                        RATE_LIMIT_CONFIGS_interpret (limits freshServer)),
         interpretCache :=
           lru_set (atCacheSet firstClock) (buildInterpretCacheKey natalChart (bodyFortune natalBody))
             (echoParser ''reading'') (Some memoryTTL)
             (snd (lru_get (atCacheGet firstClock)
                (buildInterpretCacheKey natalChart (bodyFortune natalBody))
                (interpretCache freshServer)))\<rparr>,
      1)"
  using POST_compute[OF natal_admitted natal_body(1,2) natal_memory_miss demo_store_misses(3)
      answering_llm]
  by (simp only: demo_parts if_True)

lemma demo_within: "atCacheGet secondClock \<le> atCacheSet firstClock + memoryTTL"
  by (simp add: firstClock_def secondClock_def memoryTTL_def)

text \<open>
  The end-to-end scenario on a fresh server whose generator answers at once: the first
  request is served from \<open>llm\<close> after one generator call, the second, a minute later, from
  \<open>memory\<close>, with the call count still at one.
\<close>

theorem tiered_lookup_then_memory_witness:
  "map_option (header ''X-Cache-Source'')
     (fst (POST answeringServices firstClock natalRequest (freshServer, 0))) = Some (Some ''llm'') \<and>
   snd (snd (snd (POST answeringServices firstClock natalRequest (freshServer, 0)))) = 1 \<and>
   map_option (header ''X-Cache-Source'')
     (fst (POST answeringServices secondClock natalRequest
        (snd (snd (POST answeringServices firstClock natalRequest (freshServer, 0)))))) =
     Some (Some ''memory'') \<and>
   snd (snd (snd (POST answeringServices secondClock natalRequest
        (snd (snd (POST answeringServices firstClock natalRequest (freshServer, 0))))))) = 1"
proof -
  obtain resp1 started1 st1 w1 where first:
    "POST answeringServices firstClock natalRequest (freshServer, 0) = (resp1, started1, st1, w1)"
    by (cases "POST answeringServices firstClock natalRequest (freshServer, 0)") auto
  have "limits st1 = snd (checkRateLimit (atRateLimit firstClock) (clientIP natalRequest)
      RATE_LIMIT_CONFIGS_interpret (limits freshServer))"
    using first answering_first by auto
  then have "limits st1 = Map.empty(''interpret:10.0.0.1'' \<mapsto> \<lparr>count = 1, resetTime = 61000\<rparr>)"
    by (simp only: natal_first_limit snd_conv)
  then have admitted2: "allowed (admission secondClock natalRequest st1)"
    by (rule natal_admitted_again)
  obtain resp2 started2 st2 w2 where second:
    "POST answeringServices secondClock natalRequest (st1, w1) = (resp2, started2, st2, w2)"
    by (cases "POST answeringServices secondClock natalRequest (st1, w1)") auto
  note t = tiered_lookup_then_memory[OF natal_admitted natal_body(1,2) natal_memory_miss
      demo_store_misses(3) demo_env(2,3) answering_succeeds first admitted2 demo_within second]
  from t have r: "map_option (header ''X-Cache-Source'') resp1 = Some (Some ''llm'')" "w1 = 1"
    "map_option (header ''X-Cache-Source'') resp2 = Some (Some ''memory'')" "w2 = w1"
    by blast+
  have f1: "fst (POST answeringServices firstClock natalRequest (freshServer, 0)) = resp1"
    "snd (snd (POST answeringServices firstClock natalRequest (freshServer, 0))) = (st1, w1)"
    "snd (snd (snd (POST answeringServices firstClock natalRequest (freshServer, 0)))) = w1"
    by (simp_all only: first fst_conv snd_conv)
  have f2: "fst (POST answeringServices secondClock natalRequest (st1, w1)) = resp2"
    "snd (snd (snd (POST answeringServices secondClock natalRequest (st1, w1)))) = w2"
    by (simp_all only: second fst_conv snd_conv)
  show ?thesis
    unfolding f1 f2 using r by simp
qed

text \<open>
  Claim C9 as written names the cache source of a computed response \<open>computed\<close>. The
  header \<open>X-Cache-Source\<close> of such a response is \<open>llm\<close>.
\<close>

theorem cache_source_name_counterexample:
  "map_option (header ''X-Cache-Source'')
     (fst (POST answeringServices firstClock natalRequest (freshServer, 0))) = Some (Some ''llm'') \<and>
   map_option (header ''X-Cache-Source'')
     (fst (POST answeringServices firstClock natalRequest (freshServer, 0))) \<noteq> Some (Some ''computed'')"
  by (simp only: answering_first fst_conv option.map header_source cacheSourceName.simps) simp

subsection \<open>The default result in the memory cache\<close>










end
